theory Spec2Isabelle
  imports Main "HOL-Library.AList" "HOL-Library.Char_ord" "HOL-Library.List_Lexorder"
    "HOL-Library.Sublist"
begin

section \<open>The syntax tree handed to the transpiler\<close>

text \<open>
  The transpiler of \<^verbatim>\<open>src/ftc_transpiler.py\<close> walks the tree built by Python's
  \<^verbatim>\<open>ast.parse\<close>. The tree is modelled as a datatype with one constructor per node
  class the transpiler tests for, and one catch-all constructor per syntactic category
  for every other node class.

  A constant carries a Python value. The transpiler observes such a value in three ways
  only: \<^verbatim>\<open>isinstance(v, str)\<close>, \<^verbatim>\<open>str(v)\<close> and its truth value. Strings, integers,
  booleans and \<^verbatim>\<open>None\<close> are modelled as they are; a float, complex, bytes or Ellipsis
  constant is \<open>COther r t\<close>, where \<open>r\<close> is the text \<^verbatim>\<open>str(v)\<close> and \<open>t\<close> the truth value.
\<close>

datatype pyval =
    CStr string
  | CInt int
  | CBool bool
  | CNone
  | COther string bool

datatype operator =
    Add | Sub | Mult | MatMult | Div | Mod | Pow
  | LShift | RShift | BitOr | BitXor | BitAnd | FloorDiv

datatype cmpop = Eq | NotEq | Lt | LtE | Gt | GtE | Is | IsNot | In | NotIn

datatype unaryop = Invert | Not_op | UAdd | USub

text \<open>
  \<open>Call f args\<close> keeps the positional arguments only: keyword arguments are never read.
  \<open>OtherExpr\<close> stands for every expression class without a case of its own (boolean
  operators, subscripts, lambdas, displays, ...); the transpiler never looks inside one.
\<close>

datatype expr =
    Constant pyval
  | Name string
  | Attribute expr string
  | UnaryOp unaryop expr
  | BinOp expr operator expr
  | Compare expr "cmpop list" "expr list"
  | Call expr "expr list"
  | OtherExpr

text \<open>
  \<open>FunctionDef name args body\<close> keeps the names of \<^verbatim>\<open>node.args.args\<close>.
  \<open>OtherStmt children\<close> stands for every statement class without a visitor method
  (\<^verbatim>\<open>for\<close>, \<^verbatim>\<open>with\<close>, \<^verbatim>\<open>try\<close>, \<^verbatim>\<open>return\<close>, \<^verbatim>\<open>pass\<close>, \<^verbatim>\<open>import\<close>, augmented assignment,
  \<^verbatim>\<open>async def\<close>, ...): \<^verbatim>\<open>NodeVisitor.generic_visit\<close> walks its fields, which reaches the
  statements nested in it, in field order, and nothing else that has a visitor method.
  A module is the list of its top-level statements.
\<close>

datatype stmt =
    ClassDef string "expr list" "stmt list"
  | FunctionDef string "string list" "stmt list"
  | Assign "expr list" expr
  | Expr expr
  | If_stmt expr "stmt list" "stmt list"
  | While_stmt expr "stmt list" "stmt list"
  | OtherStmt "stmt list"

text \<open>
  An exception is its class name and the text \<^verbatim>\<open>str(e)\<close>. The emitter itself raises
  only through \<^verbatim>\<open>node.args[0]\<close> on an empty argument list. The interpreter's
  recursion limit is not modelled.
\<close>

datatype py_exception = PyException string string

fun str_exception :: "py_exception \<Rightarrow> string" where
  "str_exception (PyException cls msg) = msg"

definition IndexError :: py_exception where
  "IndexError = PyException ''IndexError'' ''list index out of range''"

section \<open>Python's string operations\<close>

definition digit_char :: "nat \<Rightarrow> char" where
  "digit_char d = ''0123456789'' ! d"

fun str_nat :: "nat \<Rightarrow> string" where
  "str_nat n = (if n < 10 then [digit_char n] else str_nat (n div 10) @ [digit_char (n mod 10)])"

declare str_nat.simps [simp del]

definition str_int :: "int \<Rightarrow> string" where
  "str_int i = (if i < 0 then ''-'' @ str_nat (nat (- i)) else str_nat (nat i))"

text \<open>\<^verbatim>\<open>str(v)\<close>, as an f-string applies it to a constant's value.\<close>

fun py_str :: "pyval \<Rightarrow> string" where
  "py_str (CStr s) = s"
| "py_str (CInt i) = str_int i"
| "py_str (CBool b) = (if b then ''True'' else ''False'')"
| "py_str CNone = ''None''"
| "py_str (COther r t) = r"

text \<open>The truth value of a constant's value.\<close>

fun truthy :: "pyval \<Rightarrow> bool" where
  "truthy (CStr s) = (s \<noteq> [])"
| "truthy (CInt i) = (i \<noteq> 0)"
| "truthy (CBool b) = b"
| "truthy CNone = False"
| "truthy (COther r t) = t"

text \<open>\<^verbatim>\<open>s.strip(c)\<close> for a one-character argument.\<close>

definition strip :: "char \<Rightarrow> string \<Rightarrow> string" where
  "strip c s = rev (dropWhile (\<lambda>x. x = c) (rev (dropWhile (\<lambda>x. x = c) s)))"

text \<open>\<^verbatim>\<open>sep.join(xs)\<close>.\<close>

fun join :: "string \<Rightarrow> string list \<Rightarrow> string" where
  "join sep [] = []"
| "join sep [x] = x"
| "join sep (x # y # ys) = x @ sep @ join sep (y # ys)"

text \<open>\<^verbatim>\<open>"    " * n\<close>: a count below one gives the empty string.\<close>

definition spaces :: "int \<Rightarrow> string" where
  "spaces n = concat (replicate (nat n) ''    '')"

text \<open>\<^verbatim>\<open>xs.insert(-1, x)\<close>: before the last element, or into the empty list.\<close>

definition insert_before_last :: "'a \<Rightarrow> 'a list \<Rightarrow> 'a list" where
  "insert_before_last x xs = (if xs = [] then [x] else butlast xs @ [x, last xs])"

section \<open>Mapping tables\<close>

definition hardware_types :: "(string \<times> string) list" where
  "hardware_types =
    [(''motor'', ''DcMotor''),
     (''servo'', ''Servo''),
     (''color_sensor'', ''ColorSensor''),
     (''distance_sensor'', ''DistanceSensor''),
     (''gyro'', ''GyroSensor''),
     (''touch_sensor'', ''TouchSensor''),
     (''light_sensor'', ''LightSensor''),
     (''imu'', ''IMU'')]"

definition motor_directions :: "(string \<times> string) list" where
  "motor_directions =
    [(''forward'', ''DcMotor.Direction.FORWARD''),
     (''reverse'', ''DcMotor.Direction.REVERSE'')]"

definition motor_modes :: "(string \<times> string) list" where
  "motor_modes =
    [(''run_using_encoder'', ''DcMotor.RunMode.RUN_USING_ENCODER''),
     (''run_without_encoder'', ''DcMotor.RunMode.RUN_WITHOUT_ENCODER''),
     (''run_to_position'', ''DcMotor.RunMode.RUN_TO_POSITION''),
     (''stop_and_reset_encoder'', ''DcMotor.RunMode.STOP_AND_RESET_ENCODER'')]"

definition standard_imports :: "string list" where
  "standard_imports =
    [''com.qualcomm.robotcore.eventloop.opmode.LinearOpMode'',
     ''com.qualcomm.robotcore.eventloop.opmode.TeleOp'',
     ''com.qualcomm.robotcore.eventloop.opmode.Autonomous'',
     ''com.qualcomm.robotcore.hardware.DcMotor'',
     ''com.qualcomm.robotcore.hardware.Servo'',
     ''com.qualcomm.robotcore.hardware.ColorSensor'',
     ''com.qualcomm.robotcore.hardware.DistanceSensor'',
     ''com.qualcomm.robotcore.hardware.TouchSensor'',
     ''com.qualcomm.robotcore.hardware.LightSensor'',
     ''com.qualcomm.robotcore.hardware.IMU'',
     ''org.firstinspires.ftc.robotcore.external.navigation.DistanceUnit'',
     ''org.firstinspires.ftc.robotcore.external.navigation.AngleUnit'']"

definition gamepad_mappings :: "(string \<times> string) list" where
  "gamepad_mappings =
    [(''left_stick_y'', ''left_stick_y''),
     (''right_stick_x'', ''right_stick_x''),
     (''left_stick_x'', ''left_stick_x''),
     (''right_stick_y'', ''right_stick_y''),
     (''a_button'', ''a''),
     (''b_button'', ''b''),
     (''x_button'', ''x''),
     (''y_button'', ''y''),
     (''dpad_up'', ''dpad_up''),
     (''dpad_down'', ''dpad_down''),
     (''dpad_left'', ''dpad_left''),
     (''dpad_right'', ''dpad_right''),
     (''left_bumper'', ''left_bumper''),
     (''right_bumper'', ''right_bumper''),
     (''left_trigger'', ''left_trigger''),
     (''right_trigger'', ''right_trigger'')]"

text \<open>\<^verbatim>\<open>d.get(k, default)\<close> on a table.\<close>

definition dict_get :: "('k \<times> 'v) list \<Rightarrow> 'k \<Rightarrow> 'v \<Rightarrow> 'v" where
  "dict_get d k dflt = (case map_of d k of None \<Rightarrow> dflt | Some v \<Rightarrow> v)"

definition convert_gamepad_attr :: "string \<Rightarrow> string" where
  "convert_gamepad_attr attr = dict_get gamepad_mappings attr attr"

text \<open>
  \<^verbatim>\<open>convert_binary_op\<close> tests the class of any operator node it is given, so its
  argument is an operator of either kind. The parser puts an \<open>operator\<close> into a \<open>BinOp\<close>
  and \<open>cmpop\<close>s into a \<open>Compare\<close>.
\<close>

datatype op_node = Operator operator | Cmpop cmpop

fun convert_binary_op :: "op_node \<Rightarrow> string" where
  "convert_binary_op (Operator Add) = ''+''"
| "convert_binary_op (Operator Sub) = ''-''"
| "convert_binary_op (Operator Mult) = ''*''"
| "convert_binary_op (Operator Div) = ''/''"
| "convert_binary_op (Cmpop Lt) = ''<''"
| "convert_binary_op (Cmpop Gt) = ''>''"
| "convert_binary_op (Cmpop LtE) = ''<=''"
| "convert_binary_op (Cmpop GtE) = ''>=''"
| "convert_binary_op (Cmpop Eq) = ''==''"
| "convert_binary_op (Cmpop NotEq) = ''!=''"
| "convert_binary_op _ = ''?''"

text \<open>
  \<^verbatim>\<open>get_string_arg\<close> returns the value of the constant at the index, whatever its
  type, and the default when the argument is missing or is not a constant.
\<close>

definition get_string_arg :: "expr list \<Rightarrow> nat \<Rightarrow> pyval \<Rightarrow> pyval" where
  "get_string_arg args index dflt =
    (if length args > index
     then (case args ! index of Constant c \<Rightarrow> c | _ \<Rightarrow> dflt)
     else dflt)"

section \<open>Expression translator\<close>

definition UNKNOWN_EXPRESSION :: string where
  "UNKNOWN_EXPRESSION = ''/* UNKNOWN EXPRESSION */''"

definition UNKNOWN_CALL :: string where
  "UNKNOWN_CALL = ''/* UNKNOWN CALL */''"

text \<open>
  \<open>visit_call_expression f args\<close> is \<^verbatim>\<open>visit_call_expression\<close> on the node \<open>Call f args\<close>.
  An attribute whose value is not a bare name matches the \<^verbatim>\<open>Attribute\<close> branch of
  \<^verbatim>\<open>visit_expression\<close>, returns nothing there and so falls through to the marker.
\<close>

function visit_expression :: "expr \<Rightarrow> py_exception + string"
  and visit_call_expression :: "expr \<Rightarrow> expr list \<Rightarrow> py_exception + string"
where
  "visit_expression (Constant c) =
    (case c of CStr s \<Rightarrow> Inr (''\"'' @ s @ ''\"'') | _ \<Rightarrow> Inr (py_str c))"
| "visit_expression (Name i) = Inr i"
| "visit_expression (Attribute v attr) =
    (case v of
       Name i \<Rightarrow>
         if i = ''gamepad1'' then Inr (''gamepad1.'' @ convert_gamepad_attr attr)
         else if i = ''gamepad2'' then Inr (''gamepad2.'' @ convert_gamepad_attr attr)
         else Inr (i @ ''.'' @ attr)
     | _ \<Rightarrow> Inr UNKNOWN_EXPRESSION)"
| "visit_expression (UnaryOp uop operand) =
    (if uop = USub
     then (case visit_expression operand of
             Inl e \<Rightarrow> Inl e
           | Inr operand' \<Rightarrow> Inr (''-'' @ operand'))
     else Inr UNKNOWN_EXPRESSION)"
| "visit_expression (BinOp l bop r) =
    (case visit_expression l of
       Inl e \<Rightarrow> Inl e
     | Inr left \<Rightarrow>
         (case visit_expression r of
            Inl e \<Rightarrow> Inl e
          | Inr right \<Rightarrow> Inr (left @ '' '' @ convert_binary_op (Operator bop) @ '' '' @ right)))"
| "visit_expression (Compare l ops comparators) = Inr UNKNOWN_EXPRESSION"
| "visit_expression (Call f args) = visit_call_expression f args"
| "visit_expression OtherExpr = Inr UNKNOWN_EXPRESSION"
| "visit_call_expression (Attribute v method) args =
    (case visit_expression v of
       Inl e \<Rightarrow> Inl e
     | Inr obj \<Rightarrow>
         if method = ''set_power'' then
           (case args of
              [] \<Rightarrow> Inl IndexError
            | a # _ \<Rightarrow> (case visit_expression a of
                          Inl e \<Rightarrow> Inl e
                        | Inr arg \<Rightarrow> Inr (obj @ ''.setPower('' @ arg @ '')'')))
         else if method = ''set_position'' then
           (case args of
              [] \<Rightarrow> Inl IndexError
            | a # _ \<Rightarrow> (case visit_expression a of
                          Inl e \<Rightarrow> Inl e
                        | Inr arg \<Rightarrow> Inr (obj @ ''.setPosition('' @ arg @ '')'')))
         else if method = ''get_distance'' then Inr (obj @ ''.getDistance(DistanceUnit.CM)'')
         else if method = ''is_pressed'' then Inr (obj @ ''.isPressed()'')
         else if method = ''get_current_position'' then Inr (obj @ ''.getCurrentPosition()'')
         else if method = ''set_target_position'' then
           (case args of
              [] \<Rightarrow> Inl IndexError
            | a # _ \<Rightarrow> (case visit_expression a of
                          Inl e \<Rightarrow> Inl e
                        | Inr arg \<Rightarrow> Inr (obj @ ''.setTargetPosition('' @ arg @ '')'')))
         else if method = ''set_mode'' then
           (case args of
              [] \<Rightarrow> Inr (obj @ ''.setMode(/* UNKNOWN MODE */)'')
            | a # _ \<Rightarrow>
                (case visit_expression a of
                   Inl e \<Rightarrow> Inl e
                 | Inr mode_arg \<Rightarrow>
                     (case map_of motor_modes (strip (CHR 0x22) mode_arg) of
                        Some java_mode \<Rightarrow> Inr (obj @ ''.setMode('' @ java_mode @ '')'')
                      | None \<Rightarrow> Inr (obj @ ''.setMode(/* UNKNOWN MODE */)''))))
         else Inr UNKNOWN_CALL)"
| "visit_call_expression (Name i) args =
    (if i = ''telemetry_add'' then
       (case args of
          k # v # _ \<Rightarrow>
            (case visit_expression k of
               Inl e \<Rightarrow> Inl e
             | Inr key \<Rightarrow>
                 (case visit_expression v of
                    Inl e \<Rightarrow> Inl e
                  | Inr val \<Rightarrow> Inr (''telemetry.addData('' @ key @ '', '' @ val @ '')'')))
        | _ \<Rightarrow> Inr UNKNOWN_CALL)
     else if i = ''sleep'' then
       (case args of
          [] \<Rightarrow> Inr UNKNOWN_CALL
        | a # _ \<Rightarrow> (case visit_expression a of
                      Inl e \<Rightarrow> Inl e
                    | Inr time_ms \<Rightarrow> Inr (''sleep('' @ time_ms @ '')'')))
     else Inr UNKNOWN_CALL)"
| "visit_call_expression (Constant c) args = Inr UNKNOWN_CALL"
| "visit_call_expression (UnaryOp uop operand) args = Inr UNKNOWN_CALL"
| "visit_call_expression (BinOp l bop r) args = Inr UNKNOWN_CALL"
| "visit_call_expression (Compare l ops comparators) args = Inr UNKNOWN_CALL"
| "visit_call_expression (Call f' args') args = Inr UNKNOWN_CALL"
| "visit_call_expression OtherExpr args = Inr UNKNOWN_CALL"
  by pat_completeness auto

termination
  by (relation "measure (\<lambda>x. case x of
          Inl e \<Rightarrow> 2 * size e
        | Inr (f, args) \<Rightarrow> 2 * (size f + size_list size args) + 1)")
     auto

section \<open>Transpiler state\<close>

datatype OpModeType = TELEOP | AUTONOMOUS | DISABLED

fun OpModeType_value :: "OpModeType \<Rightarrow> string" where
  "OpModeType_value TELEOP = ''TeleOp''"
| "OpModeType_value AUTONOMOUS = ''Autonomous''"
| "OpModeType_value DISABLED = ''Disabled''"

text \<open>
  The fields of the two dataclasses carry a prefix, so that they do not capture
  variable names. \<^verbatim>\<open>get_string_arg\<close> fills the configuration name, the direction,
  the display name and the group, so these hold a constant's value of any type; a
  missing direction is \<^verbatim>\<open>None\<close>.
\<close>

record HardwareComponent =
  hc_name :: string
  hc_type :: string
  hc_config_name :: pyval
  hc_direction :: pyval

record OpModeInfo =
  om_name :: pyval
  om_group :: pyval
  om_type :: OpModeType

text \<open>
  The mutable fields of \<^verbatim>\<open>FTCTranspiler\<close>. \<^verbatim>\<open>hardware_components\<close> is a dictionary
  iterated in insertion order: an association list updated in place, new keys at the end.
\<close>

record transpiler =
  java_code :: "string list"
  hardware_components :: "(string \<times> HardwareComponent) list"
  opmode_info :: "OpModeInfo option"
  class_name :: string
  indent_level :: int

definition FTCTranspiler_init :: transpiler where
  "FTCTranspiler_init =
    \<lparr>java_code = [], hardware_components = [], opmode_info = None,
     class_name = [], indent_level = 0\<rparr>"

definition indent :: "transpiler \<Rightarrow> string" where
  "indent st = spaces (indent_level st)"

definition add_line :: "string \<Rightarrow> transpiler \<Rightarrow> transpiler" where
  "add_line line st = st\<lparr>java_code := java_code st @ [indent st @ line]\<rparr>"

text \<open>\<^verbatim>\<open>self.java_code.insert(-1, self.indent() + line)\<close>.\<close>

definition insert_line :: "string \<Rightarrow> transpiler \<Rightarrow> transpiler" where
  "insert_line line st = st\<lparr>java_code := insert_before_last (indent st @ line) (java_code st)\<rparr>"

definition indent_more :: "transpiler \<Rightarrow> transpiler" where
  "indent_more st = st\<lparr>indent_level := indent_level st + 1\<rparr>"

definition indent_less :: "transpiler \<Rightarrow> transpiler" where
  "indent_less st = st\<lparr>indent_level := indent_level st - 1\<rparr>"

section \<open>Component registry\<close>

text \<open>The body of the loop of \<^verbatim>\<open>scan_hardware_components\<close>, on one statement.\<close>

definition scan_stmt ::
  "stmt \<Rightarrow> (string \<times> HardwareComponent) list \<Rightarrow> (string \<times> HardwareComponent) list" where
  "scan_stmt s hc =
    (case s of
       Assign targets val \<Rightarrow>
         (case targets of
            [Attribute (Name i) attr] \<Rightarrow>
              if i = ''self'' then
                (case val of
                   Call (Name func_name) args \<Rightarrow>
                     (case map_of hardware_types func_name of
                        Some ty \<Rightarrow>
                          AList.update attr
                            \<lparr>hc_name = attr, hc_type = ty,
                             hc_config_name = get_string_arg args 0 (CStr attr),
                             hc_direction = get_string_arg args 1 CNone\<rparr> hc
                      | None \<Rightarrow> hc)
                 | _ \<Rightarrow> hc)
              else hc
          | _ \<Rightarrow> hc)
     | _ \<Rightarrow> hc)"

definition scan_hardware_components ::
  "stmt list \<Rightarrow> (string \<times> HardwareComponent) list \<Rightarrow> (string \<times> HardwareComponent) list" where
  "scan_hardware_components body hc = fold scan_stmt body hc"

section \<open>Statement emitter\<close>

definition hardware_declaration :: "string \<times> HardwareComponent \<Rightarrow> string" where
  "hardware_declaration p = ''private '' @ hc_type (snd p) @ '' '' @ fst p @ '' = null;''"

text \<open>The body of the decorator loop of \<^verbatim>\<open>visit_ClassDef\<close>, on one decorator.\<close>

definition process_decorator :: "string \<Rightarrow> expr \<Rightarrow> OpModeInfo option \<Rightarrow> OpModeInfo option" where
  "process_decorator name decorator info =
    (case decorator of
       Call (Name i) args \<Rightarrow>
         if i = ''teleop'' then
           Some \<lparr>om_name = get_string_arg args 0 (CStr name),
                 om_group = get_string_arg args 1 (CStr ''Linear Opmode''),
                 om_type = TELEOP\<rparr>
         else if i = ''autonomous'' then
           Some \<lparr>om_name = get_string_arg args 0 (CStr name),
                 om_group = get_string_arg args 1 (CStr ''Linear Opmode''),
                 om_type = AUTONOMOUS\<rparr>
         else info
     | _ \<Rightarrow> info)"

definition annotation_line :: "OpModeInfo \<Rightarrow> string" where
  "annotation_line info =
    ''@'' @ OpModeType_value (om_type info) @ ''(name=\"'' @ py_str (om_name info)
      @ ''\", group=\"'' @ py_str (om_group info) @ ''\")''"

text \<open>The scan of the class body for its \<^verbatim>\<open>init_hardware\<close> members.\<close>

definition scan_member ::
  "stmt \<Rightarrow> (string \<times> HardwareComponent) list \<Rightarrow> (string \<times> HardwareComponent) list" where
  "scan_member item hc =
    (case item of
       FunctionDef name args body \<Rightarrow>
         if name = ''init_hardware'' then scan_hardware_components body hc else hc
     | _ \<Rightarrow> hc)"

text \<open>
  \<^verbatim>\<open>visit_ClassDef\<close> up to the point where it visits the class body: decorators,
  annotation and header lines, the declarations of the components known before the
  scan, the scan, and the declarations inserted after it.
\<close>

definition ClassDef_prologue :: "string \<Rightarrow> expr list \<Rightarrow> stmt list \<Rightarrow> transpiler \<Rightarrow> transpiler" where
  "ClassDef_prologue name decorator_list body st =
    (let st1 = st\<lparr>class_name := name\<rparr>;
         st2 = st1\<lparr>opmode_info := fold (process_decorator name) decorator_list (opmode_info st1)\<rparr>;
         st3 = (case opmode_info st2 of
                  Some info \<Rightarrow> add_line (annotation_line info) st2
                | None \<Rightarrow> st2);
         st4 = add_line (''public class '' @ class_name st3 @ '' extends LinearOpMode {'') st3;
         st5 = indent_more st4;
         st6 = (if hardware_components st5 \<noteq> [] then
                  add_line []
                    (fold (\<lambda>p. add_line (hardware_declaration p)) (hardware_components st5)
                      (add_line ''// Hardware components'' st5))
                else st5);
         st7 = st6\<lparr>hardware_components := fold scan_member body (hardware_components st6)\<rparr>;
         st8 = (if hardware_components st7 \<noteq> [] then
                  insert_line []
                    (fold (\<lambda>p. insert_line (hardware_declaration p)) (hardware_components st7)
                      (insert_line ''// Hardware components'' st7))
                else st7)
     in st8)"

text \<open>\<^verbatim>\<open>generate_run_opmode\<close> up to the point where it visits the body.\<close>

definition run_prologue :: "transpiler \<Rightarrow> transpiler" where
  "run_prologue st =
    (let st1 = add_line ''@Override'' st;
         st2 = add_line ''public void runOpMode() {'' st1;
         st3 = indent_more st2;
         st4 = add_line ''initHardware();'' st3;
         st5 = add_line [] st4;
         st6 = add_line ''telemetry.addData(\"Status\", \"Initialized\");'' st5;
         st7 = add_line ''telemetry.update();'' st6;
         st8 = add_line [] st7;
         st9 = add_line ''waitForStart();'' st8
     in add_line [] st9)"

text \<open>\<^verbatim>\<open>generate_regular_method\<close> up to the point where it visits the body.\<close>

definition regular_prologue :: "string \<Rightarrow> string list \<Rightarrow> transpiler \<Rightarrow> transpiler" where
  "regular_prologue name args st =
    (let params = map (\<lambda>arg. ''double '' @ arg) (filter (\<lambda>arg. arg \<noteq> ''self'') args);
         param_str = join '', '' params
     in indent_more (add_line (''private void '' @ name @ ''('' @ param_str @ '') {'') st))"

definition visit_Assign :: "expr list \<Rightarrow> expr \<Rightarrow> transpiler \<Rightarrow> py_exception + transpiler" where
  "visit_Assign targets val st =
    (case targets of
       [Attribute v attr] \<Rightarrow>
         (case v of
            Name i \<Rightarrow>
              if i = ''self'' then
                (case val of
                   Call (Name func_name) args \<Rightarrow>
                     (case map_of hardware_types func_name of
                        Some ty \<Rightarrow>
                          (let config_name = get_string_arg args 0 (CStr attr);
                               direction = get_string_arg args 1 CNone;
                               st1 = add_line (attr @ '' = hardwareMap.get('' @ ty @ ''.class, \"''
                                       @ py_str config_name @ ''\");'') st
                           in if truthy direction \<and> func_name = ''motor'' then
                                Inr (add_line (attr @ ''.setDirection(''
                                       @ (case direction of
                                            CStr d \<Rightarrow> dict_get motor_directions d d
                                          | _ \<Rightarrow> py_str direction)
                                       @ '');'') st1)
                              else Inr st1)
                      | None \<Rightarrow> Inr st)
                 | _ \<Rightarrow>
                     (case visit_expression val of
                        Inl e \<Rightarrow> Inl e
                      | Inr v' \<Rightarrow> Inr (add_line (attr @ '' = '' @ v' @ '';'') st)))
              else Inr st
          | _ \<Rightarrow> Inr st)
     | [Name var_name] \<Rightarrow>
         (case visit_expression val of
            Inl e \<Rightarrow> Inl e
          | Inr v' \<Rightarrow> Inr (add_line (''double '' @ var_name @ '' = '' @ v' @ '';'') st))
     | _ \<Rightarrow> Inr st)"

definition visit_Expr :: "expr \<Rightarrow> transpiler \<Rightarrow> py_exception + transpiler" where
  "visit_Expr val st =
    (case val of
       Call f args \<Rightarrow>
         (case visit_call_expression f args of
            Inl e \<Rightarrow> Inl e
          | Inr call_str \<Rightarrow>
              if \<not> prefix ''/*'' call_str then Inr (add_line (call_str @ '';'') st)
              else Inr st)
     | _ \<Rightarrow> Inr st)"

text \<open>
  \<open>visit\<close> is \<^verbatim>\<open>NodeVisitor.visit\<close> on a statement: the dispatch to the visitor methods,
  with \<^verbatim>\<open>visit_FunctionDef\<close> and the four generators it selects by name written in place,
  and \<^verbatim>\<open>generic_visit\<close> for the rest. \<open>visit_stmts\<close> is the loop
  \<^verbatim>\<open>for stmt in body: self.visit(stmt)\<close>; an exception ends it.
\<close>

fun visit :: "stmt \<Rightarrow> transpiler \<Rightarrow> py_exception + transpiler"
  and visit_stmts :: "stmt list \<Rightarrow> transpiler \<Rightarrow> py_exception + transpiler"
where
  "visit (ClassDef name decorator_list body) st =
    (case visit_stmts body (ClassDef_prologue name decorator_list body st) of
       Inl e \<Rightarrow> Inl e
     | Inr st' \<Rightarrow> Inr (add_line ''}'' (indent_less st')))"
| "visit (FunctionDef name args body) st =
    (if name = ''init_hardware'' then
       (case visit_stmts body (indent_more (add_line ''private void initHardware() {'' st)) of
          Inl e \<Rightarrow> Inl e
        | Inr st' \<Rightarrow> Inr (add_line [] (add_line ''}'' (indent_less st'))))
     else if name = ''run'' then
       (case visit_stmts body (run_prologue st) of
          Inl e \<Rightarrow> Inl e
        | Inr st' \<Rightarrow> Inr (add_line ''}'' (indent_less st')))
     else if name = ''loop'' then
       (case visit_stmts body (indent_more (add_line ''while (opModeIsActive()) {'' st)) of
          Inl e \<Rightarrow> Inl e
        | Inr st' \<Rightarrow> Inr (add_line ''}'' (indent_less (add_line ''telemetry.update();'' st'))))
     else
       (case visit_stmts body (regular_prologue name args st) of
          Inl e \<Rightarrow> Inl e
        | Inr st' \<Rightarrow> Inr (add_line [] (add_line ''}'' (indent_less st')))))"
| "visit (Assign targets val) st = visit_Assign targets val st"
| "visit (Expr val) st = visit_Expr val st"
| "visit (If_stmt test body orelse) st =
    (case visit_expression test of
       Inl e \<Rightarrow> Inl e
     | Inr condition \<Rightarrow>
         (case visit_stmts body (indent_more (add_line (''if ('' @ condition @ '') {'') st)) of
            Inl e \<Rightarrow> Inl e
          | Inr st1 \<Rightarrow>
              if orelse \<noteq> [] then
                (case visit_stmts orelse (indent_more (add_line ''} else {'' (indent_less st1))) of
                   Inl e \<Rightarrow> Inl e
                 | Inr st2 \<Rightarrow> Inr (add_line ''}'' (indent_less st2)))
              else Inr (add_line ''}'' (indent_less st1))))"
| "visit (While_stmt test body orelse) st =
    (case visit_expression test of
       Inl e \<Rightarrow> Inl e
     | Inr condition \<Rightarrow>
         (case visit_stmts body (indent_more (add_line (''while ('' @ condition @ '') {'') st)) of
            Inl e \<Rightarrow> Inl e
          | Inr st' \<Rightarrow> Inr (add_line ''}'' (indent_less st'))))"
| "visit (OtherStmt children) st = visit_stmts children st"
| "visit_stmts [] st = Inr st"
| "visit_stmts (s # ss) st =
    (case visit s st of
       Inl e \<Rightarrow> Inl e
     | Inr st' \<Rightarrow> visit_stmts ss st')"

section \<open>Orchestrator\<close>

definition generate_java_code :: "transpiler \<Rightarrow> string" where
  "generate_java_code st =
    join [CHR 0x0A] (map (\<lambda>imp. ''import '' @ imp @ '';'') (sort standard_imports))
      @ [CHR 0x0A, CHR 0x0A] @ join [CHR 0x0A] (java_code st)"

text \<open>
  The body of the \<^verbatim>\<open>try\<close> block after parsing: a fresh transpiler visits the module,
  whose \<^verbatim>\<open>generic_visit\<close> visits the top-level statements in order.
\<close>

definition transpile_tree :: "stmt list \<Rightarrow> py_exception + string" where
  "transpile_tree tree =
    (case visit_stmts tree FTCTranspiler_init of
       Inl e \<Rightarrow> Inl e
     | Inr st \<Rightarrow> Inr (generate_java_code st))"

definition fallback :: "py_exception \<Rightarrow> string \<Rightarrow> string" where
  "fallback e python_code =
    ''// Transpilation error: '' @ str_exception e @ [CHR 0x0A]
      @ ''// Original Python code:'' @ [CHR 0x0A] @ ''/*'' @ [CHR 0x0A]
      @ python_code @ [CHR 0x0A] @ ''*/''"

text \<open>
  The entry point. The front end \<^verbatim>\<open>ast.parse\<close> is external: it is the parameter
  \<open>parse\<close>, which returns the module's statements or the exception it raises.
\<close>

definition transpile_ftc_python_to_java ::
  "(string \<Rightarrow> py_exception + stmt list) \<Rightarrow> string \<Rightarrow> string" where
  "transpile_ftc_python_to_java parse python_code =
    (case parse python_code of
       Inl e \<Rightarrow> fallback e python_code
     | Inr tree \<Rightarrow>
         (case transpile_tree tree of
            Inl e \<Rightarrow> fallback e python_code
          | Inr text \<Rightarrow> text))"

section \<open>Auxiliary notions for the statements\<close>

text \<open>The lines of one declaration block at indentation \<open>ind\<close>.\<close>

definition declaration_block :: "string \<Rightarrow> (string \<times> HardwareComponent) list \<Rightarrow> string list" where
  "declaration_block ind hc =
     [ind @ ''// Hardware components''] @ map (\<lambda>p. ind @ hardware_declaration p) hc @ [ind]"

definition effective_opmode :: "string \<Rightarrow> expr list \<Rightarrow> transpiler \<Rightarrow> OpModeInfo option" where
  "effective_opmode name decorator_list st = fold (process_decorator name) decorator_list (opmode_info st)"

definition scanned_components :: "stmt list \<Rightarrow> transpiler \<Rightarrow> (string \<times> HardwareComponent) list" where
  "scanned_components body st = fold scan_member body (hardware_components st)"

text \<open>
  The attribute that a statement declares as hardware in the eyes of the pre-scan: the
  statement assigns a call of a name of \<open>hardware_types\<close> to an attribute of \<^verbatim>\<open>self\<close>.
\<close>

definition hardware_target :: "stmt \<Rightarrow> string option" where
  "hardware_target s =
     (case s of
        Assign [Attribute (Name i) attr] (Call (Name func_name) args) \<Rightarrow>
          if i = ''self'' \<and> map_of hardware_types func_name \<noteq> None then Some attr else None
      | _ \<Rightarrow> None)"

text \<open>A class member that is an \<^verbatim>\<open>init_hardware\<close> routine declaring the attribute.\<close>

definition member_declares :: "string \<Rightarrow> stmt \<Rightarrow> bool" where
  "member_declares X m =
     (case m of
        FunctionDef name args body \<Rightarrow>
          name = ''init_hardware'' \<and> (\<exists>s\<in>set body. hardware_target s = Some X)
      | _ \<Rightarrow> False)"









section \<open>How the emitter changes its state\<close>

lemma add_line_fields [simp]:
  "java_code (add_line l st) = java_code st @ [indent st @ l]"
  "indent_level (add_line l st) = indent_level st"
  "hardware_components (add_line l st) = hardware_components st"
  "opmode_info (add_line l st) = opmode_info st"
  "class_name (add_line l st) = class_name st"
  "indent (add_line l st) = indent st"
  by (simp_all add: add_line_def indent_def)

lemma insert_line_fields [simp]:
  "java_code (insert_line l st) = insert_before_last (indent st @ l) (java_code st)"
  "indent_level (insert_line l st) = indent_level st"
  "hardware_components (insert_line l st) = hardware_components st"
  "opmode_info (insert_line l st) = opmode_info st"
  "class_name (insert_line l st) = class_name st"
  "indent (insert_line l st) = indent st"
  by (simp_all add: insert_line_def indent_def)

lemma indent_more_fields [simp]:
  "java_code (indent_more st) = java_code st"
  "indent_level (indent_more st) = indent_level st + 1"
  "hardware_components (indent_more st) = hardware_components st"
  "opmode_info (indent_more st) = opmode_info st"
  "class_name (indent_more st) = class_name st"
  by (simp_all add: indent_more_def)

lemma indent_less_fields [simp]:
  "java_code (indent_less st) = java_code st"
  "indent_level (indent_less st) = indent_level st - 1"
  "hardware_components (indent_less st) = hardware_components st"
  "opmode_info (indent_less st) = opmode_info st"
  "class_name (indent_less st) = class_name st"
  by (simp_all add: indent_less_def)

lemma insert_before_last_snoc [simp]:
  "insert_before_last x (xs @ [z]) = xs @ [x, z]"
  by (simp add: insert_before_last_def)

lemma fold_add_line_fields [simp]:
  "java_code (fold (\<lambda>p. add_line (f p)) ps st) = java_code st @ map (\<lambda>p. indent st @ f p) ps"
  "indent_level (fold (\<lambda>p. add_line (f p)) ps st) = indent_level st"
  "hardware_components (fold (\<lambda>p. add_line (f p)) ps st) = hardware_components st"
  "opmode_info (fold (\<lambda>p. add_line (f p)) ps st) = opmode_info st"
  "class_name (fold (\<lambda>p. add_line (f p)) ps st) = class_name st"
  "indent (fold (\<lambda>p. add_line (f p)) ps st) = indent st"
  by (induction ps arbitrary: st; simp)+

lemma fold_insert_line_fields [simp]:
  "indent_level (fold (\<lambda>p. insert_line (f p)) ps st) = indent_level st"
  "hardware_components (fold (\<lambda>p. insert_line (f p)) ps st) = hardware_components st"
  "opmode_info (fold (\<lambda>p. insert_line (f p)) ps st) = opmode_info st"
  "class_name (fold (\<lambda>p. insert_line (f p)) ps st) = class_name st"
  "indent (fold (\<lambda>p. insert_line (f p)) ps st) = indent st"
  by (induction ps arbitrary: st; simp)+

lemma fold_insert_line_java_code:
  "java_code st = xs @ [z] \<Longrightarrow>
   java_code (fold (\<lambda>p. insert_line (f p)) ps st) = xs @ map (\<lambda>p. indent st @ f p) ps @ [z]"
proof (induction ps arbitrary: st xs)
  case Nil
  then show ?case by simp
next
  case (Cons p ps)
  have "java_code (insert_line (f p) st) = (xs @ [indent st @ f p]) @ [z]"
    using Cons.prems by simp
  from Cons.IH [OF this] show ?case by simp
qed

lemma update_nonempty [simp]: "AList.update k v al \<noteq> []"
  by (cases al) simp_all

lemma scan_stmt_nonempty: "hc \<noteq> [] \<Longrightarrow> scan_stmt s hc \<noteq> []"
  by (simp add: scan_stmt_def split: stmt.splits list.splits expr.splits option.splits)

lemma fold_scan_stmt_nonempty: "hc \<noteq> [] \<Longrightarrow> fold scan_stmt ss hc \<noteq> []"
  by (induction ss arbitrary: hc) (simp_all add: scan_stmt_nonempty)

lemma scan_member_nonempty: "hc \<noteq> [] \<Longrightarrow> scan_member s hc \<noteq> []"
  by (simp add: scan_member_def scan_hardware_components_def fold_scan_stmt_nonempty
        split: stmt.splits)

lemma fold_scan_member_nonempty: "hc \<noteq> [] \<Longrightarrow> fold scan_member ss hc \<noteq> []"
  by (induction ss arbitrary: hc) (simp_all add: scan_member_nonempty)

lemma declaration_block_inserted:
  assumes "java_code st \<noteq> []"
  shows "java_code (insert_line []
           (fold (\<lambda>p. insert_line (hardware_declaration p)) hc
             (insert_line ''// Hardware components'' st)))
         = butlast (java_code st) @ declaration_block (indent st) hc @ [last (java_code st)]"
proof -
  from assms obtain xs z where xs: "java_code st = xs @ [z]"
    by (metis append_butlast_last_id)
  then have "java_code (insert_line ''// Hardware components'' st)
          = (xs @ [indent st @ ''// Hardware components'']) @ [z]"
    by simp
  from fold_insert_line_java_code [OF this, of hardware_declaration hc] xs
  show ?thesis
    by (simp add: declaration_block_def insert_before_last_def butlast_append)
qed

lemma ClassDef_prologue_fields [simp]:
  "indent_level (ClassDef_prologue name ds body st) = indent_level st + 1"
  "hardware_components (ClassDef_prologue name ds body st) = scanned_components body st"
  "opmode_info (ClassDef_prologue name ds body st) = effective_opmode name ds st"
  "class_name (ClassDef_prologue name ds body st) = name"
  by (simp_all add: ClassDef_prologue_def Let_def scanned_components_def effective_opmode_def
        split: option.splits)

lemma ClassDef_prologue_java_code:
  "java_code (ClassDef_prologue name ds body st) =
     java_code st
     @ (case effective_opmode name ds st of
          Some info \<Rightarrow> [indent st @ annotation_line info] | None \<Rightarrow> [])
     @ (if hardware_components st = [] then
          (if scanned_components body st = [] then []
           else declaration_block (spaces (indent_level st + 1)) (scanned_components body st))
          @ [indent st @ ''public class '' @ name @ '' extends LinearOpMode {'']
        else
          [indent st @ ''public class '' @ name @ '' extends LinearOpMode {'']
          @ butlast (declaration_block (spaces (indent_level st + 1)) (hardware_components st))
          @ declaration_block (spaces (indent_level st + 1)) (scanned_components body st)
          @ [spaces (indent_level st + 1)])"
proof (cases "fold (process_decorator name) ds (opmode_info st)")
  case None
  then show ?thesis
    by (simp add: ClassDef_prologue_def Let_def scanned_components_def effective_opmode_def
          declaration_block_inserted indent_def declaration_block_def butlast_append
          fold_scan_member_nonempty
          del: insert_line_fields(1))
next
  case (Some info)
  then show ?thesis
    by (simp add: ClassDef_prologue_def Let_def scanned_components_def effective_opmode_def
          declaration_block_inserted indent_def declaration_block_def butlast_append
          fold_scan_member_nonempty
          del: insert_line_fields(1))
qed


lemma run_prologue_fields [simp]:
  "java_code (run_prologue st) =
     java_code st
     @ [indent st @ ''@Override'', indent st @ ''public void runOpMode() {'',
        spaces (indent_level st + 1) @ ''initHardware();'',
        spaces (indent_level st + 1),
        spaces (indent_level st + 1) @ ''telemetry.addData(\"Status\", \"Initialized\");'',
        spaces (indent_level st + 1) @ ''telemetry.update();'',
        spaces (indent_level st + 1),
        spaces (indent_level st + 1) @ ''waitForStart();'',
        spaces (indent_level st + 1)]"
  "indent_level (run_prologue st) = indent_level st + 1"
  "hardware_components (run_prologue st) = hardware_components st"
  "opmode_info (run_prologue st) = opmode_info st"
  "class_name (run_prologue st) = class_name st"
  by (simp_all add: run_prologue_def Let_def indent_def)

lemma regular_prologue_fields [simp]:
  "java_code (regular_prologue name args st) =
     java_code st
     @ [indent st @ ''private void '' @ name @ ''(''
          @ join '', '' (map (\<lambda>arg. ''double '' @ arg) (filter (\<lambda>arg. arg \<noteq> ''self'') args))
          @ '') {'']"
  "indent_level (regular_prologue name args st) = indent_level st + 1"
  "hardware_components (regular_prologue name args st) = hardware_components st"
  "opmode_info (regular_prologue name args st) = opmode_info st"
  "class_name (regular_prologue name args st) = class_name st"
  by (simp_all add: regular_prologue_def Let_def)

lemma ClassDef_prologue_extends:
  "\<exists>ls. java_code (ClassDef_prologue name ds body st) = java_code st @ ls"
  by (simp add: ClassDef_prologue_java_code)



lemma relocate_simps [simp]:
  "indent (st\<lparr>java_code := J\<rparr>) = indent st"
  "add_line l (st\<lparr>java_code := J\<rparr>) = (add_line l st)\<lparr>java_code := J @ [indent st @ l]\<rparr>"
  "indent_more (st\<lparr>java_code := J\<rparr>) = (indent_more st)\<lparr>java_code := J\<rparr>"
  "indent_less (st\<lparr>java_code := J\<rparr>) = (indent_less st)\<lparr>java_code := J\<rparr>"
  by (simp_all add: indent_def add_line_def indent_more_def indent_less_def)

lemma relocate_same [simp]: "st\<lparr>java_code := java_code st\<rparr> = st"
  by simp

lemma fold_add_line_plain [simp]:
  "java_code (fold add_line ls st) = java_code st @ map (\<lambda>l. indent st @ l) ls"
  "indent_level (fold add_line ls st) = indent_level st"
  "fold add_line ls (st\<lparr>java_code := J\<rparr>)
     = (fold add_line ls st)\<lparr>java_code := J @ map (\<lambda>l. indent st @ l) ls\<rparr>"
  by (induction ls arbitrary: st J; simp)+

lemma visit_Assign_hardware_lines:
  assumes "map_of hardware_types func_name = Some ty"
  shows "visit_Assign [Attribute (Name ''self'') attr] (Call (Name func_name) args) st =
     Inr (fold add_line
           ([attr @ '' = hardwareMap.get('' @ ty @ ''.class, \"''
               @ py_str (get_string_arg args 0 (CStr attr)) @ ''\");'']
            @ (if truthy (get_string_arg args 1 CNone) \<and> func_name = ''motor'' then
                 [attr @ ''.setDirection(''
                    @ (case get_string_arg args 1 CNone of
                         CStr d \<Rightarrow> dict_get motor_directions d d
                       | _ \<Rightarrow> py_str (get_string_arg args 1 CNone))
                    @ '');'']
               else []))
           st)"
proof (cases "truthy (get_string_arg args 1 CNone) \<and> func_name = ''motor''")
  case True
  with assms show ?thesis
    by (simp add: visit_Assign_def Let_def cong: pyval.case_cong)
next
  case False
  with assms show ?thesis
    by (simp add: visit_Assign_def Let_def cong: pyval.case_cong)
qed

lemma visit_Assign_shape:
  obtains (none) "\<And>st. visit_Assign targets val st = Inr st"
    | (local) var_name where "targets = [Name var_name]"
        "\<And>st. visit_Assign targets val st =
           (case visit_expression val of
              Inl e \<Rightarrow> Inl e
            | Inr v' \<Rightarrow> Inr (add_line (''double '' @ var_name @ '' = '' @ v' @ '';'') st))"
    | (regular) attr where "targets = [Attribute (Name ''self'') attr]"
        "\<And>st. visit_Assign targets val st =
           (case visit_expression val of
              Inl e \<Rightarrow> Inl e
            | Inr v' \<Rightarrow> Inr (add_line (attr @ '' = '' @ v' @ '';'') st))"
    | (hardware) attr func_name args ty where
        "targets = [Attribute (Name ''self'') attr]" "val = Call (Name func_name) args"
        "map_of hardware_types func_name = Some ty"
proof (cases targets)
  case Nil
  then show ?thesis by (intro none) (simp add: visit_Assign_def)
next
  case (Cons t ts)
  show ?thesis
  proof (cases ts)
    case (Cons t2 ts2)
    with \<open>targets = t # ts\<close> show ?thesis
      by (intro none) (cases t; simp add: visit_Assign_def)
  next
    case Nil
    note ts = Nil
    show ?thesis
    proof (cases t)
      case (Name var_name)
      with Cons ts show ?thesis
        by (intro local [of var_name]) (simp_all add: visit_Assign_def)
    next
      case (Attribute v attr)
      note t = Attribute
      show ?thesis
      proof (cases v)
        case (Name i)
        show ?thesis
        proof (cases "i = ''self''")
          case False
          with Name t Cons ts show ?thesis
            by (intro none) (simp add: visit_Assign_def)
        next
          case True
          show ?thesis
          proof (cases val)
            case (Call f args)
            show ?thesis
            proof (cases f)
              case fn: (Name func_name)
              show ?thesis
              proof (cases "map_of hardware_types func_name")
                case None
                with fn Call True Name t Cons ts show ?thesis
                  by (intro none) (simp add: visit_Assign_def)
              next
                case (Some ty)
                with fn Call True Name t Cons ts show ?thesis
                  by (intro hardware [of attr func_name args ty]) simp_all
              qed
            qed (use Call True Name t Cons ts in
                  \<open>(intro regular [of attr], simp_all add: visit_Assign_def)+\<close>)
          qed (use True Name t Cons ts in
                \<open>(intro regular [of attr], simp_all add: visit_Assign_def)+\<close>)
        qed
      qed (use t Cons ts in \<open>(intro none, simp add: visit_Assign_def)+\<close>)
    qed (use Cons ts in \<open>(intro none, simp add: visit_Assign_def)+\<close>)
  qed
qed

text \<open>
  An assignment or an expression statement raises in every state or in none, and in the
  latter case its whole effect is to append fixed texts at the current indentation.
\<close>

lemma visit_Assign_lines:
  "(\<exists>ls. \<forall>st. visit_Assign targets val st = Inr (fold add_line ls st))
   \<or> (\<exists>e. \<forall>st. visit_Assign targets val st = Inl e)"
proof (cases targets val rule: visit_Assign_shape)
  case none
  then show ?thesis
    by (intro disjI1 exI [of _ "[]"]) simp
next
  case (local var_name)
  show ?thesis
  proof (cases "visit_expression val")
    case (Inl e)
    with local(2) show ?thesis
      by (intro disjI2 exI [of _ e]) simp
  next
    case (Inr v')
    with local(2) show ?thesis
      by (intro disjI1 exI [of _ "[''double '' @ var_name @ '' = '' @ v' @ '';'']"]) simp
  qed
next
  case (regular attr)
  show ?thesis
  proof (cases "visit_expression val")
    case (Inl e)
    with regular(2) show ?thesis
      by (intro disjI2 exI [of _ e]) simp
  next
    case (Inr v')
    with regular(2) show ?thesis
      by (intro disjI1 exI [of _ "[attr @ '' = '' @ v' @ '';'']"]) simp
  qed
next
  case (hardware attr func_name args ty)
  from visit_Assign_hardware_lines [OF hardware(3), of attr args] hardware(1,2) show ?thesis
    by (intro disjI1) blast
qed

lemma visit_Expr_lines:
  "(\<exists>ls. \<forall>st. visit_Expr val st = Inr (fold add_line ls st))
   \<or> (\<exists>e. \<forall>st. visit_Expr val st = Inl e)"
proof -
  have none: "(\<forall>st. visit_Expr val st = Inr st) \<Longrightarrow> ?thesis"
    by (intro disjI1 exI [of _ "[]"]) simp
  show ?thesis
  proof (cases val)
    case (Call f args)
    show ?thesis
    proof (cases "visit_call_expression f args")
      case (Inl e)
      with Call show ?thesis
        by (intro disjI2 exI [of _ e]) (simp add: visit_Expr_def)
    next
      case (Inr call_str)
      show ?thesis
      proof (cases "prefix ''/*'' call_str")
        case True
        with Inr Call show ?thesis
          by (intro none) (simp add: visit_Expr_def)
      next
        case False
        with Inr Call show ?thesis
          by (intro disjI1 exI [of _ "[call_str @ '';'']"]) (simp add: visit_Expr_def)
      qed
    qed
  qed (intro none, simp add: visit_Expr_def)+
qed


lemma visit_Assign_frame:
  assumes "visit_Assign targets val st = Inr st'"
  shows "indent_level st' = indent_level st \<and> prefix (java_code st) (java_code st')"
proof -
  from visit_Assign_lines [of targets val] assms obtain ls where
    "visit_Assign targets val st = Inr (fold add_line ls st)"
    by auto
  with assms show ?thesis
    by auto
qed

lemma visit_Expr_frame:
  assumes "visit_Expr val st = Inr st'"
  shows "indent_level st' = indent_level st \<and> prefix (java_code st) (java_code st')"
proof -
  from visit_Expr_lines [of val] assms obtain ls where
    "visit_Expr val st = Inr (fold add_line ls st)"
    by auto
  with assms show ?thesis
    by auto
qed

lemma prefix_java_code_add_line [simp]:
  "prefix xs (java_code st) \<Longrightarrow> prefix xs (java_code (add_line l st))"
  by simp

lemma prefix_snocD: "prefix (xs @ ys) zs \<Longrightarrow> prefix xs zs"
  by (rule append_prefixD)

lemma ClassDef_prologue_prefixD:
  "prefix (java_code (ClassDef_prologue name ds body st)) zs \<Longrightarrow> prefix (java_code st) zs"
  by (metis ClassDef_prologue_extends append_prefixD)

lemma visit_frame:
  "visit s st = Inr st' \<Longrightarrow>
     indent_level st' = indent_level st \<and> prefix (java_code st) (java_code st')"
  "visit_stmts ss st = Inr st' \<Longrightarrow>
     indent_level st' = indent_level st \<and> prefix (java_code st) (java_code st')"
proof (induction s st and ss st arbitrary: st' and st' rule: visit_visit_stmts.induct)
  case (1 name decorator_list body st)
  from "1.prems" obtain st1 where
    b: "visit_stmts body (ClassDef_prologue name decorator_list body st) = Inr st1"
    and st': "st' = add_line ''}'' (indent_less st1)"
    by (auto split: sum.splits)
  from "1.IH" [OF b] st' show ?case
    by (auto dest: ClassDef_prologue_prefixD)
next
  case (2 name args body st)
  consider (init) "name = ''init_hardware''"
    | (run) "name \<noteq> ''init_hardware''" "name = ''run''"
    | (loop) "name \<noteq> ''init_hardware''" "name \<noteq> ''run''" "name = ''loop''"
    | (regular) "name \<noteq> ''init_hardware''" "name \<noteq> ''run''" "name \<noteq> ''loop''"
    by blast
  then show ?case
  proof cases
    case init
    with "2.prems" obtain st1 where
      b: "visit_stmts body (indent_more (add_line ''private void initHardware() {'' st)) = Inr st1"
      and st': "st' = add_line [] (add_line ''}'' (indent_less st1))"
      by (auto split: sum.splits)
    from "2.IH"(1) [OF init b] st' show ?thesis
      by (auto dest: prefix_snocD)
  next
    case run
    with "2.prems" obtain st1 where
      b: "visit_stmts body (run_prologue st) = Inr st1"
      and st': "st' = add_line ''}'' (indent_less st1)"
      by (auto split: sum.splits)
    from "2.IH"(2) [OF run b] st' show ?thesis
      by (auto dest: prefix_snocD)
  next
    case loop
    with "2.prems" obtain st1 where
      b: "visit_stmts body (indent_more (add_line ''while (opModeIsActive()) {'' st)) = Inr st1"
      and st': "st' = add_line ''}'' (indent_less (add_line ''telemetry.update();'' st1))"
      by (auto split: sum.splits)
    from "2.IH"(3) [OF loop b] st' show ?thesis
      by (auto dest: prefix_snocD)
  next
    case regular
    with "2.prems" obtain st1 where
      b: "visit_stmts body (regular_prologue name args st) = Inr st1"
      and st': "st' = add_line [] (add_line ''}'' (indent_less st1))"
      by (auto split: sum.splits)
    from "2.IH"(4) [OF regular b] st' show ?thesis
      by (auto dest: prefix_snocD)
  qed
next
  case (3 targets val st)
  then show ?case by (simp add: visit_Assign_frame)
next
  case (4 val st)
  then show ?case by (simp add: visit_Expr_frame)
next
  case (5 test body orelse st)
  from "5.prems" obtain condition st1 where
    c: "visit_expression test = Inr condition"
    and b: "visit_stmts body (indent_more (add_line (''if ('' @ condition @ '') {'') st)) = Inr st1"
    by (auto split: sum.splits)
  note ih1 = "5.IH"(1) [OF c b]
  show ?case
  proof (cases "orelse = []")
    case True
    with "5.prems" c b have "st' = add_line ''}'' (indent_less st1)"
      by simp
    with ih1 show ?thesis
      by (auto dest: prefix_snocD)
  next
    case False
    with "5.prems" c b obtain st2 where
      e: "visit_stmts orelse (indent_more (add_line ''} else {'' (indent_less st1))) = Inr st2"
      and st': "st' = add_line ''}'' (indent_less st2)"
      by (auto split: sum.splits)
    from "5.IH"(2) [OF c b False e] ih1 st' show ?thesis
      by (auto dest!: prefix_snocD intro: prefix_order.trans)
  qed
next
  case (6 test body orelse st)
  from "6.prems" obtain condition st1 where
    c: "visit_expression test = Inr condition"
    and b: "visit_stmts body (indent_more (add_line (''while ('' @ condition @ '') {'') st)) = Inr st1"
    and st': "st' = add_line ''}'' (indent_less st1)"
    by (auto split: sum.splits)
  from "6.IH" [OF c b] st' show ?case
    by (auto dest: prefix_snocD)
next
  case (7 children st)
  then show ?case by simp
next
  case (8 st)
  then show ?case by simp
next
  case (9 s ss st)
  from "9.prems" obtain st1 where
    a: "visit s st = Inr st1" and b: "visit_stmts ss st1 = Inr st'"
    by (auto split: sum.splits)
  from "9.IH"(1) [OF a] "9.IH"(2) [OF a b] show ?case
    by (auto intro: prefix_order.trans)
qed


lemma visit_stmts_append:
  "visit_stmts (xs @ ys) st =
     (case visit_stmts xs st of Inl e \<Rightarrow> Inl e | Inr st1 \<Rightarrow> visit_stmts ys st1)"
  by (induction xs arbitrary: st) (simp_all split: sum.splits)


lemma spaces_numeral [simp]:
  "spaces 0 = []" "spaces 1 = ''    ''" "spaces 2 = ''        ''"
  "spaces (0 + 1) = ''    ''" "spaces (0 + 1 + 1) = ''        ''"
  by (simp_all add: spaces_def eval_nat_numeral)

lemma FTCTranspiler_init_fields [simp]:
  "java_code FTCTranspiler_init = []"
  "indent_level FTCTranspiler_init = 0"
  "hardware_components FTCTranspiler_init = []"
  "opmode_info FTCTranspiler_init = None"
  by (simp_all add: FTCTranspiler_init_def)

text \<open>
  A statement of a module that is transpiled without an exception is visited at
  indentation depth 0, and the lines it has appended stay in the output.
\<close>

lemma module_statement:
  assumes "transpile_tree (before @ u # after) = Inr text"
  obtains s1 s2 st' ls where
    "visit_stmts before FTCTranspiler_init = Inr s1"
    "visit u s1 = Inr s2"
    "indent_level s1 = 0"
    "java_code st' = java_code s2 @ ls"
    "text = generate_java_code st'"
proof -
  from assms obtain st' where
    v: "visit_stmts (before @ u # after) FTCTranspiler_init = Inr st'"
    and t: "text = generate_java_code st'"
    by (auto simp: transpile_tree_def split: sum.splits)
  from v obtain s1 s2 where
    a: "visit_stmts before FTCTranspiler_init = Inr s1"
    and b: "visit u s1 = Inr s2"
    and c: "visit_stmts after s2 = Inr st'"
    by (auto simp: visit_stmts_append split: sum.splits)
  from visit_frame(2) [OF a] have "indent_level s1 = 0"
    by simp
  moreover from visit_frame(2) [OF c] obtain ls where "java_code st' = java_code s2 @ ls"
    by (auto elim: prefixE)
  ultimately show ?thesis
    using a b t that by blast
qed

text \<open>The two leading arguments of a call, where they are literals, are string literals.\<close>

lemma get_string_arg_0:
  assumes "\<forall>c. Constant c \<in> set (take 2 args) \<longrightarrow> (\<exists>s. c = CStr s)"
  shows "py_str (get_string_arg args 0 (CStr d))
           = (case args of Constant (CStr n) # _ \<Rightarrow> n | _ \<Rightarrow> d)"
proof (cases args)
  case Nil
  then show ?thesis by (simp add: get_string_arg_def)
next
  case (Cons a as)
  show ?thesis
  proof (cases a)
    case (Constant c)
    with Cons assms obtain s where "c = CStr s"
      by (auto simp: eval_nat_numeral)
    with Constant Cons show ?thesis by (simp add: get_string_arg_def)
  qed (simp_all add: Cons get_string_arg_def)
qed

lemma get_string_arg_1:
  assumes "\<forall>c. Constant c \<in> set (take 2 args) \<longrightarrow> (\<exists>s. c = CStr s)"
  shows "get_string_arg args 1 d
           = (case args of _ # Constant (CStr g) # _ \<Rightarrow> CStr g | _ \<Rightarrow> d)"
proof (cases args)
  case Nil
  then show ?thesis by (simp add: get_string_arg_def)
next
  case (Cons a as)
  note args = Cons
  show ?thesis
  proof (cases as)
    case Nil
    with args show ?thesis by (simp add: get_string_arg_def)
  next
    case (Cons b bs)
    show ?thesis
    proof (cases b)
      case (Constant c)
      with Cons args assms obtain s where "c = CStr s"
        by (auto simp: eval_nat_numeral)
      with Constant Cons args show ?thesis by (simp add: get_string_arg_def)
    qed (simp_all add: Cons args get_string_arg_def)
  qed
qed

lemma scan_stmt_cases:
  obtains (same) "hardware_target s = None" "scan_stmt s hc = hc"
    | (upd) attr func_name args ty where
        "s = Assign [Attribute (Name ''self'') attr] (Call (Name func_name) args)"
        "map_of hardware_types func_name = Some ty"
        "hardware_target s = Some attr"
        "scan_stmt s hc =
           AList.update attr
             \<lparr>hc_name = attr, hc_type = ty,
              hc_config_name = get_string_arg args 0 (CStr attr),
              hc_direction = get_string_arg args 1 CNone\<rparr> hc"
proof (cases s)
  case (Assign targets val)
  show ?thesis
  proof (cases targets)
    case Nil
    with Assign same show ?thesis
      by (simp add: scan_stmt_def hardware_target_def)
  next
    case (Cons t ts)
    show ?thesis
    proof (cases ts)
      case (Cons t2 ts2)
      with \<open>targets = t # ts\<close> Assign same show ?thesis
        by (cases t) (simp_all add: scan_stmt_def hardware_target_def split: expr.splits)
    next
      case Nil
      note ts = Nil
      show ?thesis
      proof (cases t)
        case (Attribute v attr)
        note t = Attribute
        show ?thesis
        proof (cases v)
          case (Name i)
          show ?thesis
          proof (cases "i = ''self''")
            case False
            with Name t Cons ts Assign same show ?thesis
              by (simp add: scan_stmt_def hardware_target_def split: expr.splits)
          next
            case True
            show ?thesis
            proof (cases val)
              case (Call f args)
              show ?thesis
              proof (cases f)
                case fn: (Name func_name)
                show ?thesis
                proof (cases "map_of hardware_types func_name")
                  case None
                  with fn Call True Name t Cons ts Assign same show ?thesis
                    by (simp add: scan_stmt_def hardware_target_def)
                next
                  case (Some ty)
                  with fn Call True Name t Cons ts Assign upd [of attr func_name args ty]
                  show ?thesis
                    by (simp add: scan_stmt_def hardware_target_def)
                qed
              qed (use Call True Name t Cons ts Assign same in
                    \<open>simp_all add: scan_stmt_def hardware_target_def\<close>)
            qed (use True Name t Cons ts Assign same in
                  \<open>simp_all add: scan_stmt_def hardware_target_def\<close>)
          qed
        qed (use t Cons ts Assign same in \<open>simp_all add: scan_stmt_def hardware_target_def\<close>)
      qed (use Cons ts Assign same in \<open>simp_all add: scan_stmt_def hardware_target_def\<close>)
    qed
  qed
qed (use same in \<open>simp_all add: scan_stmt_def hardware_target_def\<close>)







section \<open>The entry point\<close>

text \<open>
  Claim C1. For every input string the entry point returns a string. Whenever the
  front end raises, or the emitter raises on the parsed tree, the returned text is the
  comment block: the line \<^verbatim>\<open>// Transpilation error: \<close> with the message of the
  exception, the line \<^verbatim>\<open>// Original Python code:\<close>, and the input verbatim between
  \<^verbatim>\<open>/*\<close> and \<^verbatim>\<open>*/\<close>. Otherwise it is the generated text. The statement holds for
  every front end \<open>parse\<close>.
\<close>

theorem C1_entry_point_total:
  "(parse python_code = Inl e \<longrightarrow>
      transpile_ftc_python_to_java parse python_code
        = ''// Transpilation error: '' @ str_exception e @ [CHR 0x0A]
          @ ''// Original Python code:'' @ [CHR 0x0A] @ ''/*'' @ [CHR 0x0A]
          @ python_code @ [CHR 0x0A] @ ''*/'')
   \<and> (parse python_code = Inr tree \<and> transpile_tree tree = Inl e \<longrightarrow>
      transpile_ftc_python_to_java parse python_code
        = ''// Transpilation error: '' @ str_exception e @ [CHR 0x0A]
          @ ''// Original Python code:'' @ [CHR 0x0A] @ ''/*'' @ [CHR 0x0A]
          @ python_code @ [CHR 0x0A] @ ''*/'')
   \<and> (parse python_code = Inr tree \<and> transpile_tree tree = Inr text \<longrightarrow>
      transpile_ftc_python_to_java parse python_code = text)"
  by (simp add: transpile_ftc_python_to_java_def fallback_def)

text \<open>
  The two failing paths at concrete inputs: a front end that rejects \<^verbatim>\<open>class X\<close>, and
  the tree of \<^verbatim>\<open>m.set_power()\<close>, on which the emitter reads \<^verbatim>\<open>node.args[0]\<close> of an
  empty argument list.
\<close>

theorem C1_entry_point_total_witness:
  "transpile_ftc_python_to_java
      (\<lambda>s. Inl (PyException ''SyntaxError'' ''invalid syntax (<unknown>, line 1)'')) ''class X''
     = ''// Transpilation error: invalid syntax (<unknown>, line 1)'' @ [CHR 0x0A]
       @ ''// Original Python code:'' @ [CHR 0x0A] @ ''/*'' @ [CHR 0x0A]
       @ ''class X'' @ [CHR 0x0A] @ ''*/''
   \<and> transpile_ftc_python_to_java
      (\<lambda>s. Inr [Expr (Call (Attribute (Name ''m'') ''set_power'') [])]) ''m.set_power()''
     = ''// Transpilation error: list index out of range'' @ [CHR 0x0A]
       @ ''// Original Python code:'' @ [CHR 0x0A] @ ''/*'' @ [CHR 0x0A]
       @ ''m.set_power()'' @ [CHR 0x0A] @ ''*/''"
proof -
  have h1: "(\<lambda>s::string. (Inl (PyException ''SyntaxError'' ''invalid syntax (<unknown>, line 1)'')
                :: py_exception + stmt list)) ''class X''
              = Inl (PyException ''SyntaxError'' ''invalid syntax (<unknown>, line 1)'')"
    by simp
  have h2: "(\<lambda>s::string. (Inr [Expr (Call (Attribute (Name ''m'') ''set_power'') [])]
                :: py_exception + stmt list)) ''m.set_power()''
              = Inr [Expr (Call (Attribute (Name ''m'') ''set_power'') [])]
            \<and> transpile_tree [Expr (Call (Attribute (Name ''m'') ''set_power'') [])]
              = Inl IndexError"
    by (simp add: transpile_tree_def visit_Expr_def)
  show ?thesis
    using h1 h2
      C1_entry_point_total
        [of "\<lambda>s. Inl (PyException ''SyntaxError'' ''invalid syntax (<unknown>, line 1)'')"
            "''class X''" "PyException ''SyntaxError'' ''invalid syntax (<unknown>, line 1)''"]
      C1_entry_point_total
        [of "\<lambda>s. Inr [Expr (Call (Attribute (Name ''m'') ''set_power'') [])]"
            "''m.set_power()''" IndexError
            "[Expr (Call (Attribute (Name ''m'') ''set_power'') [])]"]
    by (simp add: IndexError_def)
qed

section \<open>Class scaffold\<close>

text \<open>
  Claim C2, evaluated on the unit of the repository's test
  \<^verbatim>\<open>test_hardware_component_declaration\<close> (two of its four components): the class header
  is the sixth line, and the comment, the two field declarations and the blank line stand
  before it, between the annotation and the header. The claim places every field
  declaration after the header line and before the members.
\<close>

theorem C2_declarations_before_header:
  "map_sum id java_code
     (visit_stmts
        [ClassDef ''HardwareRobot''
           [Call (Name ''teleop'') [Constant (CStr ''Hardware Test''), Constant (CStr ''Test'')]]
           [FunctionDef ''init_hardware'' [''self'']
              [Assign [Attribute (Name ''self'') ''left_motor'']
                 (Call (Name ''motor'')
                    [Constant (CStr ''left_drive''), Constant (CStr ''forward'')]),
               Assign [Attribute (Name ''self'') ''test_servo'']
                 (Call (Name ''servo'') [Constant (CStr ''test_servo'')])],
            FunctionDef ''run'' [''self''] [OtherStmt []]]]
        FTCTranspiler_init)
    = Inr [''@TeleOp(name=\"Hardware Test\", group=\"Test\")'',
           ''    // Hardware components'',
           ''    private DcMotor left_motor = null;'',
           ''    private Servo test_servo = null;'',
           ''    '',
           ''public class HardwareRobot extends LinearOpMode {'',
           ''    private void initHardware() {'',
           ''        left_motor = hardwareMap.get(DcMotor.class, \"left_drive\");'',
           ''        left_motor.setDirection(DcMotor.Direction.FORWARD);'',
           ''        test_servo = hardwareMap.get(Servo.class, \"test_servo\");'',
           ''    }'',
           ''    '',
           ''    @Override'',
           ''    public void runOpMode() {'',
           ''        initHardware();'',
           ''        '',
           ''        telemetry.addData(\"Status\", \"Initialized\");'',
           ''        telemetry.update();'',
           ''        '',
           ''        waitForStart();'',
           ''        '',
           ''    }'',
           ''}'']"
  by code_simp

section \<open>Fault containment\<close>






















section \<open>Binary operators\<close>

text \<open>
  A binary operation over operands that translate renders as \<open>left OP right\<close>, with the
  operator of the table for \<open>+ - * /\<close> and \<open>?\<close> for every other arithmetic operator.
\<close>

lemma visit_expression_BinOp:
  "visit_expression l = Inr left \<Longrightarrow> visit_expression r = Inr right \<Longrightarrow>
   visit_expression (BinOp l bop r)
     = Inr (left @ '' '' @ convert_binary_op (Operator bop) @ '' '' @ right)"
  by simp

lemma convert_binary_op_Operator:
  "convert_binary_op (Operator bop) =
     (if bop = Add then ''+'' else if bop = Sub then ''-'' else if bop = Mult then ''*''
      else if bop = Div then ''/'' else ''?'')"
  by (cases bop) simp_all

text \<open>
  Claim C4, evaluated on the comparison \<^verbatim>\<open>count < 10\<close> of the repository's test
  \<^verbatim>\<open>test_while_loop_translation\<close>: the parser builds a \<open>Compare\<close> node, for which
  \<^verbatim>\<open>visit_expression\<close> has no branch, so the translation is the marker and not
  \<^verbatim>\<open>count < 10\<close>, although \<^verbatim>\<open>convert_binary_op\<close> maps the operator to \<^verbatim>\<open><\<close>. The loop
  of the test is emitted with the marker as its condition.
\<close>

theorem C4_comparison_marker:
  "visit_expression (Compare (Name ''count'') [Lt] [Constant (CInt 10)])
     = Inr ''/* UNKNOWN EXPRESSION */''
   \<and> visit_expression (Compare (Name ''count'') [Lt] [Constant (CInt 10)]) \<noteq> Inr ''count < 10''
   \<and> convert_binary_op (Cmpop Lt) = ''<''
   \<and> map_sum id java_code
        (visit (While_stmt (Compare (Name ''count'') [Lt] [Constant (CInt 10)])
                  [Assign [Name ''count'']
                     (BinOp (Name ''count'') Add (Constant (CInt 1)))] [])
           FTCTranspiler_init)
       = Inr [''while (/* UNKNOWN EXPRESSION */) {'', ''    double count = count + 1;'', ''}'']"
  by code_simp

section \<open>Hardware declarations\<close>

lemma scan_stmt_other:
  assumes "hardware_target s \<noteq> Some X"
  shows "map_of (scan_stmt s hc) X = map_of hc X"
  using assms by (cases s hc rule: scan_stmt_cases) (auto simp: update_conv')

lemma fold_scan_stmt_other:
  assumes "\<forall>s\<in>set ss. hardware_target s \<noteq> Some X"
  shows "map_of (fold scan_stmt ss hc) X = map_of hc X"
  using assms by (induction ss arbitrary: hc) (simp_all add: scan_stmt_other)


lemma scan_member_other:
  assumes "\<not> member_declares X m"
  shows "map_of (scan_member m hc) X = map_of hc X"
proof (cases m)
  case (FunctionDef name args body)
  show ?thesis
  proof (cases "name = ''init_hardware''")
    case True
    with FunctionDef assms have "\<forall>s\<in>set body. hardware_target s \<noteq> Some X"
      by (simp add: member_declares_def)
    from fold_scan_stmt_other [OF this] True FunctionDef show ?thesis
      by (simp add: scan_member_def scan_hardware_components_def)
  next
    case False
    with FunctionDef show ?thesis by (simp add: scan_member_def)
  qed
qed (simp_all add: scan_member_def)

lemma fold_scan_member_other:
  assumes "\<forall>m\<in>set ms. \<not> member_declares X m"
  shows "map_of (fold scan_member ms hc) X = map_of hc X"
  using assms by (induction ms arbitrary: hc) (simp_all add: scan_member_other)

lemma scanned_components_declared:
  assumes "body = mpre @ FunctionDef ''init_hardware'' a
              (pre @ Assign [Attribute (Name ''self'') X] (Call (Name kind) args) # post) # mpost"
    and "map_of hardware_types kind = Some T"
    and "\<forall>s\<in>set post. hardware_target s \<noteq> Some X"
    and "\<forall>m\<in>set mpost. \<not> member_declares X m"
  shows "\<exists>c. (X, c) \<in> set (scanned_components body st) \<and> hc_type c = T"
proof -
  let ?c = "\<lparr>hc_name = X, hc_type = T,
              hc_config_name = get_string_arg args 0 (CStr X),
              hc_direction = get_string_arg args 1 CNone\<rparr>"
  have "map_of (scanned_components body st) X = Some ?c"
    unfolding scanned_components_def assms(1)
    using assms(2)
    by (simp add: fold_scan_member_other [OF assms(4)] scan_member_def
          scan_hardware_components_def fold_scan_stmt_other [OF assms(3)]
          scan_stmt_def update_conv')
  then have "(X, ?c) \<in> set (scanned_components body st)"
    by (rule map_of_SomeD)
  then show ?thesis
    by (intro exI [of _ ?c]) simp
qed


lemma ClassDef_prologue_has_declaration:
  assumes "p \<in> set (scanned_components body st)"
  shows "\<exists>A B. java_code (ClassDef_prologue name ds body st)
           = java_code st @ A @ [spaces (indent_level st + 1) @ hardware_declaration p] @ B"
proof -
  let ?ind = "spaces (indent_level st + 1)"
  from assms obtain xs ys where sc: "scanned_components body st = xs @ p # ys"
    by (auto dest: split_list)
  then have blk: "declaration_block ?ind (scanned_components body st)
      = ([?ind @ ''// Hardware components''] @ map (\<lambda>p. ?ind @ hardware_declaration p) xs)
        @ [?ind @ hardware_declaration p]
        @ (map (\<lambda>p. ?ind @ hardware_declaration p) ys @ [?ind])"
    by (simp add: declaration_block_def)
  from sc have ne: "scanned_components body st \<noteq> []"
    by simp
  show ?thesis
  proof (cases "hardware_components st = []")
    case True
    with ne have "java_code (ClassDef_prologue name ds body st) =
        java_code st
        @ ((case effective_opmode name ds st of
             Some info \<Rightarrow> [indent st @ annotation_line info] | None \<Rightarrow> [])
           @ [?ind @ ''// Hardware components''] @ map (\<lambda>p. ?ind @ hardware_declaration p) xs)
        @ [?ind @ hardware_declaration p]
        @ ((map (\<lambda>p. ?ind @ hardware_declaration p) ys @ [?ind])
           @ [indent st @ ''public class '' @ name @ '' extends LinearOpMode {''])"
      unfolding ClassDef_prologue_java_code blk by simp
    then show ?thesis by blast
  next
    case False
    then have "java_code (ClassDef_prologue name ds body st) =
        java_code st
        @ ((case effective_opmode name ds st of
             Some info \<Rightarrow> [indent st @ annotation_line info] | None \<Rightarrow> [])
           @ [indent st @ ''public class '' @ name @ '' extends LinearOpMode {'']
           @ butlast (declaration_block ?ind (hardware_components st))
           @ [?ind @ ''// Hardware components''] @ map (\<lambda>p. ?ind @ hardware_declaration p) xs)
        @ [?ind @ hardware_declaration p]
        @ ((map (\<lambda>p. ?ind @ hardware_declaration p) ys @ [?ind]) @ [?ind])"
      unfolding ClassDef_prologue_java_code blk by simp
    then show ?thesis by blast
  qed
qed

lemma visit_Assign_hardware:
  assumes "map_of hardware_types func_name = Some ty"
    and "visit_Assign [Attribute (Name ''self'') attr] (Call (Name func_name) args) st = Inr st'"
  shows "java_code st' =
     java_code st
     @ [indent st @ attr @ '' = hardwareMap.get('' @ ty @ ''.class, \"''
          @ py_str (get_string_arg args 0 (CStr attr)) @ ''\");'']
     @ (if truthy (get_string_arg args 1 CNone) \<and> func_name = ''motor'' then
          [indent st @ attr @ ''.setDirection(''
             @ (case get_string_arg args 1 CNone of
                  CStr d \<Rightarrow> dict_get motor_directions d d
                | _ \<Rightarrow> py_str (get_string_arg args 1 CNone))
             @ '');'']
        else [])"
proof (cases "truthy (get_string_arg args 1 CNone) \<and> func_name = ''motor''")
  case True
  with assms show ?thesis
    by (auto simp: visit_Assign_def Let_def cong: pyval.case_cong)
next
  case False
  with assms show ?thesis
    by (auto simp: visit_Assign_def Let_def cong: pyval.case_cong)
qed

text \<open>
  Claim C5, amended. Take a module that is transpiled without an exception, a class of
  it, an \<^verbatim>\<open>init_hardware\<close> routine that is a direct member of the class, and a direct
  statement \<^verbatim>\<open>self.X = kind(args)\<close> of that routine, where \<open>kind\<close> is a hardware kind of
  type \<open>T\<close>, the literals among the first two arguments are string literals, and no later
  statement scanned by the registry (a later direct statement of the routine, or a
  direct statement of a later \<^verbatim>\<open>init_hardware\<close> member) declares \<open>X\<close> again. Then the
  lines of the output contain, in this order: \<^verbatim>\<open>private T X = null;\<close> at depth one; the
  lookup \<^verbatim>\<open>X = hardwareMap.get(T.class, "cfg");\<close> at depth two, where \<open>cfg\<close> is the first
  argument if it is a string literal and \<open>X\<close> otherwise; and immediately after it, for
  the kind \<^verbatim>\<open>motor\<close> with a non-empty string literal \<open>d\<close> as second argument, the line
  \<^verbatim>\<open>X.setDirection(D);\<close>, where \<open>D\<close> is the entry of \<open>motor_directions\<close> for \<open>d\<close>, or \<open>d\<close>
  itself when it has none.
\<close>

theorem C5_hardware_declaration_order:
  assumes "tree = before @ ClassDef name decorator_list body # after"
    and "body = mpre @ FunctionDef ''init_hardware'' a
              (pre @ Assign [Attribute (Name ''self'') X] (Call (Name kind) args) # post) # mpost"
    and "map_of hardware_types kind = Some T"
    and "\<forall>s\<in>set post. hardware_target s \<noteq> Some X"
    and "\<forall>m\<in>set mpost. \<not> member_declares X m"
    and "\<forall>c. Constant c \<in> set (take 2 args) \<longrightarrow> (\<exists>s. c = CStr s)"
    and "transpile_tree tree = Inr text"
  shows "\<exists>st' lines1 lines2 lines3.
           text = generate_java_code st'
           \<and> java_code st' =
               lines1
               @ [''    private '' @ T @ '' '' @ X @ '' = null;'']
               @ lines2
               @ [''        '' @ X @ '' = hardwareMap.get('' @ T @ ''.class, \"''
                    @ (case args of Constant (CStr cfg) # _ \<Rightarrow> cfg | _ \<Rightarrow> X) @ ''\");'']
               @ (case args of
                    _ # Constant (CStr d) # _ \<Rightarrow>
                      if kind = ''motor'' \<and> d \<noteq> [] then
                        [''        '' @ X @ ''.setDirection('' @ dict_get motor_directions d d @ '');'']
                      else []
                  | _ \<Rightarrow> [])
               @ lines3"
proof -
  let ?lookup = "X @ '' = hardwareMap.get('' @ T @ ''.class, \"''
                    @ (case args of Constant (CStr cfg) # _ \<Rightarrow> cfg | _ \<Rightarrow> X) @ ''\");''"
  let ?dir = "case args of
                    _ # Constant (CStr d) # _ \<Rightarrow>
                      if kind = ''motor'' \<and> d \<noteq> [] then
                        [''        '' @ X @ ''.setDirection('' @ dict_get motor_directions d d @ '');'']
                      else []
                  | _ \<Rightarrow> []"
  let ?A = "Assign [Attribute (Name ''self'') X] (Call (Name kind) args)"
  from assms(7) obtain s1 s2 st' ls where
    s1: "indent_level s1 = 0"
    and u: "visit (ClassDef name decorator_list body) s1 = Inr s2"
    and st': "java_code st' = java_code s2 @ ls"
    and out: "text = generate_java_code st'"
    unfolding assms(1) by (rule module_statement)
  let ?P = "ClassDef_prologue name decorator_list body s1"
  from u obtain s3 where
    b: "visit_stmts body ?P = Inr s3"
    and s2: "s2 = add_line ''}'' (indent_less s3)"
    by (auto split: sum.splits)
  from scanned_components_declared [OF assms(2-5), of s1] obtain c where
    c: "(X, c) \<in> set (scanned_components body s1)" and T: "hc_type c = T"
    by blast
  from ClassDef_prologue_has_declaration [OF c, of name decorator_list] s1 T
  obtain A B where
    P: "java_code ?P = java_code s1 @ A @ [''    private '' @ T @ '' '' @ X @ '' = null;''] @ B"
    by (auto simp: hardware_declaration_def)
  have lvlP: "indent_level ?P = 1"
    using s1 by simp
  from b obtain p1 p2 where
    m1: "visit_stmts mpre ?P = Inr p1"
    and f: "visit (FunctionDef ''init_hardware'' a (pre @ ?A # post)) p1 = Inr p2"
    and m2: "visit_stmts mpost p2 = Inr s3"
    unfolding assms(2) by (auto simp: visit_stmts_append split: sum.splits)
  from visit_frame(2) [OF m1] lvlP obtain l1 where
    p1: "indent_level p1 = 1" "java_code p1 = java_code ?P @ l1"
    by (auto elim: prefixE)
  let ?Q = "indent_more (add_line ''private void initHardware() {'' p1)"
  from f obtain q3 where
    i: "visit_stmts (pre @ ?A # post) ?Q = Inr q3"
    and p2: "p2 = add_line [] (add_line ''}'' (indent_less q3))"
    by (auto split: sum.splits)
  from i obtain q1 q2 where
    i1: "visit_stmts pre ?Q = Inr q1"
    and i2: "visit ?A q1 = Inr q2"
    and i3: "visit_stmts post q2 = Inr q3"
    by (auto simp: visit_stmts_append split: sum.splits)
  from visit_frame(2) [OF i1] p1 obtain l2 where
    q1: "indent_level q1 = 2"
      "java_code q1 = java_code p1 @ [indent p1 @ ''private void initHardware() {''] @ l2"
    by (auto elim: prefixE)
  have cfg: "py_str (get_string_arg args 0 (CStr X))
      = (case args of Constant (CStr cfg) # _ \<Rightarrow> cfg | _ \<Rightarrow> X)"
    by (rule get_string_arg_0 [OF assms(6)])
  have dir: "get_string_arg args 1 CNone
      = (case args of _ # Constant (CStr d) # _ \<Rightarrow> CStr d | _ \<Rightarrow> CNone)"
    by (rule get_string_arg_1 [OF assms(6)])
  have dirl: "(if truthy (get_string_arg args 1 CNone) \<and> kind = ''motor'' then
          [indent q1 @ X @ ''.setDirection(''
             @ (case get_string_arg args 1 CNone of
                  CStr d \<Rightarrow> dict_get motor_directions d d
                | _ \<Rightarrow> py_str (get_string_arg args 1 CNone))
             @ '');'']
        else []) = ?dir"
  proof (cases "\<exists>x d xs. args = x # Constant (CStr d) # xs")
    case True
    then obtain x d xs where "args = x # Constant (CStr d) # xs"
      by blast
    with q1(1) dir show ?thesis
      by (simp add: indent_def)
  next
    case False
    then have "get_string_arg args 1 CNone = CNone" "?dir = []"
      unfolding dir by (auto split: list.splits expr.splits pyval.splits)
    then show ?thesis
      by simp
  qed
  from i2 have "visit_Assign [Attribute (Name ''self'') X] (Call (Name kind) args) q1 = Inr q2"
    by simp
  from visit_Assign_hardware [OF assms(3) this]
  have q2: "java_code q2 = java_code q1 @ [''        '' @ ?lookup] @ ?dir"
    unfolding dirl cfg using q1(1) by (simp add: indent_def)
  from visit_frame(2) [OF i3] obtain l3 where q3: "java_code q3 = java_code q2 @ l3"
    by (auto elim: prefixE)
  from visit_frame(2) [OF m2] obtain l4 where s3: "java_code s3 = java_code p2 @ l4"
    by (auto elim: prefixE)
  have "java_code st' =
      (java_code s1 @ A)
      @ [''    private '' @ T @ '' '' @ X @ '' = null;'']
      @ (B @ l1 @ [indent p1 @ ''private void initHardware() {''] @ l2)
      @ [''        '' @ ?lookup] @ ?dir
      @ (l3 @ [indent (indent_less q3) @ ''}'', indent (indent_less q3)] @ l4
           @ [indent (indent_less s3) @ ''}''] @ ls)"
    using st' s2 s3 p2 q3 q2 q1(2) p1(2) P by simp
  with out show ?thesis
    by blast
qed


text \<open>Scenario A of the specification: a forward motor, driven in the \<^verbatim>\<open>loop\<close> routine.\<close>

theorem C5_hardware_declaration_order_witness:
  "\<exists>text st' lines1 lines2 lines3.
     transpile_tree
       [ClassDef ''Robot'' []
          [FunctionDef ''init_hardware'' [''self'']
             [Assign [Attribute (Name ''self'') ''m'']
                (Call (Name ''motor'')
                   [Constant (CStr ''left_drive''), Constant (CStr ''forward'')])],
           FunctionDef ''loop'' [''self'']
             [Expr (Call (Attribute (Attribute (Name ''self'') ''m'') ''set_power'')
                      [Constant (COther ''0.5'' True)])]]] = Inr text
     \<and> text = generate_java_code st'
     \<and> java_code st' =
         lines1
         @ [''    private DcMotor m = null;'']
         @ lines2
         @ [''        m = hardwareMap.get(DcMotor.class, \"left_drive\");'']
         @ [''        m.setDirection(DcMotor.Direction.FORWARD);'']
         @ lines3"
proof -
  let ?args = "[Constant (CStr ''left_drive''), Constant (CStr ''forward'')]"
  let ?loop = "FunctionDef ''loop'' [''self'']
             [Expr (Call (Attribute (Attribute (Name ''self'') ''m'') ''set_power'')
                      [Constant (COther ''0.5'' True)])]"
  let ?body = "[FunctionDef ''init_hardware'' [''self'']
             [Assign [Attribute (Name ''self'') ''m''] (Call (Name ''motor'') ?args)], ?loop]"
  let ?tree = "[ClassDef ''Robot'' [] ?body]"
  have "case transpile_tree ?tree of Inl e \<Rightarrow> False | Inr t \<Rightarrow> True"
    by code_simp
  then obtain out where t: "transpile_tree ?tree = Inr out"
    by (cases "transpile_tree ?tree") simp_all
  have h1: "?tree = [] @ ClassDef ''Robot'' [] ?body # []"
    by simp
  have h2: "?body = [] @ FunctionDef ''init_hardware'' [''self'']
              ([] @ Assign [Attribute (Name ''self'') ''m''] (Call (Name ''motor'') ?args) # [])
              # [?loop]"
    by simp
  have h3: "map_of hardware_types ''motor'' = Some ''DcMotor''"
    by (simp add: hardware_types_def)
  have h4: "\<forall>s\<in>set ([]::stmt list). hardware_target s \<noteq> Some ''m''"
    by simp
  have h5: "\<forall>m\<in>set [?loop]. \<not> member_declares ''m'' m"
    by (simp add: member_declares_def)
  have h6: "\<forall>c. Constant c \<in> set (take 2 ?args) \<longrightarrow> (\<exists>s. c = CStr s)"
    by (auto simp: eval_nat_numeral)
  from C5_hardware_declaration_order [OF h1 h2 h3 h4 h5 h6 t] t show ?thesis
    by (simp add: dict_get_def motor_directions_def)
qed

text \<open>
  Claim C5 as stated fails for an assignment inside the initializer routine that is not
  a direct statement of it: the registry scans direct statements only, so the lookup
  and the direction statement are emitted, and no field is declared. The input is
  \<^verbatim>\<open>if c: self.m = motor("left_drive", "forward")\<close> in \<^verbatim>\<open>init_hardware\<close>.
\<close>

theorem C5_nested_assignment_undeclared:
  "map_sum id java_code
     (visit_stmts
        [ClassDef ''Robot'' []
           [FunctionDef ''init_hardware'' [''self'']
              [If_stmt (Name ''c'')
                 [Assign [Attribute (Name ''self'') ''m'']
                    (Call (Name ''motor'')
                       [Constant (CStr ''left_drive''), Constant (CStr ''forward'')])]
                 []]]]
        FTCTranspiler_init)
    = Inr [''public class Robot extends LinearOpMode {'',
           ''    private void initHardware() {'',
           ''        if (c) {'',
           ''            m = hardwareMap.get(DcMotor.class, \"left_drive\");'',
           ''            m.setDirection(DcMotor.Direction.FORWARD);'',
           ''        }'',
           ''    }'',
           ''    '',
           ''}'']"
  by code_simp

section \<open>The routine named loop\<close>

text \<open>
  Claim C7. For a routine named \<^verbatim>\<open>loop\<close>, visited in any state: if its body is emitted
  without an exception, so is the routine, and the lines it appends are the line
  \<^verbatim>\<open>while (opModeIsActive()) {\<close> at the current indentation, the lines of the translated
  body, the line \<^verbatim>\<open>telemetry.update();\<close> one level deeper, and the closing brace at the
  current indentation; the indentation depth is restored. If the body raises, the routine
  raises the same exception (and the entry point returns the fallback block).
\<close>

theorem C7_loop_wrapped:
  "(case visit_stmts body (indent_more (add_line ''while (opModeIsActive()) {'' st)) of
      Inl e \<Rightarrow> visit (FunctionDef ''loop'' args body) st = Inl e
    | Inr st1 \<Rightarrow>
        (\<exists>body_lines st'.
           visit (FunctionDef ''loop'' args body) st = Inr st'
           \<and> java_code st1
               = java_code st @ [indent st @ ''while (opModeIsActive()) {''] @ body_lines
           \<and> java_code st'
               = java_code st @ [indent st @ ''while (opModeIsActive()) {''] @ body_lines
                 @ [spaces (indent_level st + 1) @ ''telemetry.update();'', indent st @ ''}'']
           \<and> indent_level st' = indent_level st))"
proof (cases "visit_stmts body (indent_more (add_line ''while (opModeIsActive()) {'' st))")
  case (Inl e)
  then show ?thesis by simp
next
  case (Inr st1)
  from visit_frame(2) [OF Inr]
  have lvl: "indent_level st1 = indent_level st + 1"
    and "prefix (java_code st @ [indent st @ ''while (opModeIsActive()) {'']) (java_code st1)"
    by simp_all
  then obtain body_lines where
    "java_code st1 = java_code st @ [indent st @ ''while (opModeIsActive()) {''] @ body_lines"
    by (auto elim: prefixE)
  with Inr lvl show ?thesis
    by (simp add: indent_def)
qed

text \<open>The routine \<^verbatim>\<open>def loop(self): telemetry_add("Status", "Running")\<close> in a class body.\<close>

theorem C7_loop_wrapped_witness:
  "map_sum id java_code
     (visit (FunctionDef ''loop'' [''self'']
               [Expr (Call (Name ''telemetry_add'')
                        [Constant (CStr ''Status''), Constant (CStr ''Running'')])])
        (indent_more FTCTranspiler_init))
   = Inr [''    while (opModeIsActive()) {'',
          ''        telemetry.addData(\"Status\", \"Running\");'',
          ''        telemetry.update();'',
          ''    }'']"
proof -
  have b: "visit_stmts [Expr (Call (Name ''telemetry_add'')
                        [Constant (CStr ''Status''), Constant (CStr ''Running'')])]
             (indent_more (add_line ''while (opModeIsActive()) {'' (indent_more FTCTranspiler_init)))
           = Inr (add_line ''telemetry.addData(\"Status\", \"Running\");''
               (indent_more (add_line ''while (opModeIsActive()) {'' (indent_more FTCTranspiler_init))))"
    by (simp add: visit_Expr_def)
  show ?thesis
    using C7_loop_wrapped
      [where body = "[Expr (Call (Name ''telemetry_add'')
                        [Constant (CStr ''Status''), Constant (CStr ''Running'')])]"
         and st = "indent_more FTCTranspiler_init" and args = "[''self'']"]
    unfolding b
    by (auto simp: FTCTranspiler_init_def indent_def spaces_def eval_nat_numeral)
qed

section \<open>Conditionals\<close>

text \<open>
  Claim C8, evaluated on the \<^verbatim>\<open>if\<close>/\<^verbatim>\<open>elif\<close> of the repository's test
  \<^verbatim>\<open>test_gamepad_input_translation\<close>: the \<^verbatim>\<open>elif\<close> is the single statement of the
  \<^verbatim>\<open>orelse\<close> list, so it is emitted as an \<^verbatim>\<open>if\<close> block nested in an \<^verbatim>\<open>else\<close> block, with
  a closing brace of its own. No line reads \<^verbatim>\<open>} else if (gamepad2.b) {\<close>, which the test
  expects.
\<close>

theorem C8_elif_nested_in_else:
  "map_sum id java_code
     (visit (If_stmt (Attribute (Name ''gamepad1'') ''a_button'')
               [Expr (Call (Attribute (Attribute (Name ''self'') ''motor'') ''set_power'')
                        [Constant (COther ''1.0'' True)])]
               [If_stmt (Attribute (Name ''gamepad2'') ''b_button'')
                  [Expr (Call (Attribute (Attribute (Name ''self'') ''motor'') ''set_power'')
                           [Constant (COther ''0.0'' False)])]
                  []])
        FTCTranspiler_init)
    = Inr [''if (gamepad1.a) {'',
           ''    self.motor.setPower(1.0);'',
           ''} else {'',
           ''    if (gamepad2.b) {'',
           ''        self.motor.setPower(0.0);'',
           ''    }'',
           ''}'']"
  by code_simp

section \<open>Annotation line\<close>

lemma fold_process_decorator_ignored:
  assumes "\<forall>d\<in>set post. \<forall>a. d \<noteq> Call (Name ''teleop'') a \<and> d \<noteq> Call (Name ''autonomous'') a"
  shows "fold (process_decorator name) post info = info"
  using assms
proof (induction post arbitrary: info)
  case Nil
  then show ?case by simp
next
  case (Cons d post)
  have "process_decorator name d info = info"
  proof (cases d)
    case (Call f a)
    with Cons.prems show ?thesis
      by (cases f) (auto simp: process_decorator_def)
  qed (simp_all add: process_decorator_def)
  with Cons show ?case by simp
qed

lemma effective_opmode_last:
  assumes "decorator_list = pre @ Call (Name kw) args # post"
    and "kw = ''teleop'' \<or> kw = ''autonomous''"
    and "\<forall>d\<in>set post. \<forall>a. d \<noteq> Call (Name ''teleop'') a \<and> d \<noteq> Call (Name ''autonomous'') a"
  shows "effective_opmode name decorator_list st =
           Some \<lparr>om_name = get_string_arg args 0 (CStr name),
                 om_group = get_string_arg args 1 (CStr ''Linear Opmode''),
                 om_type = (if kw = ''teleop'' then TELEOP else AUTONOMOUS)\<rparr>"
  using assms(2) fold_process_decorator_ignored [OF assms(3)]
  by (auto simp: effective_opmode_def assms(1) process_decorator_def)

text \<open>
  Claim C9, amended. Take a module that is transpiled without an exception and a class
  of it whose last \<^verbatim>\<open>teleop\<close> or \<^verbatim>\<open>autonomous\<close> decorator call is \<open>kw(args)\<close>, the literals
  among the first two arguments being string literals. Then the output has the line
  \<^verbatim>\<open>@TeleOp(name="N", group="G")\<close> (respectively \<^verbatim>\<open>@Autonomous\<close>), without indentation,
  where \<open>N\<close> is the first argument if it is a string literal and the class name if it is
  missing or not a literal, and \<open>G\<close> is the second argument if it is a string literal and
  \<^verbatim>\<open>Linear Opmode\<close> if it is missing or not a literal. The output text is the import
  block followed by the lines of the final state.
\<close>

theorem C9_annotation_line:
  assumes "tree = before @ ClassDef name decorator_list body # after"
    and "decorator_list = pre @ Call (Name kw) args # post"
    and "kw = ''teleop'' \<or> kw = ''autonomous''"
    and "\<forall>d\<in>set post. \<forall>a. d \<noteq> Call (Name ''teleop'') a \<and> d \<noteq> Call (Name ''autonomous'') a"
    and "\<forall>c. Constant c \<in> set (take 2 args) \<longrightarrow> (\<exists>s. c = CStr s)"
    and "transpile_tree tree = Inr text"
  shows "\<exists>st' lines_before lines_after.
           text = generate_java_code st'
           \<and> java_code st' =
               lines_before
               @ [''@'' @ (if kw = ''teleop'' then ''TeleOp'' else ''Autonomous'')
                    @ ''(name=\"''
                    @ (case args of Constant (CStr n) # _ \<Rightarrow> n | _ \<Rightarrow> name)
                    @ ''\", group=\"''
                    @ (case args of _ # Constant (CStr g) # _ \<Rightarrow> g | _ \<Rightarrow> ''Linear Opmode'')
                    @ ''\")'']
               @ lines_after"
proof -
  let ?info = "\<lparr>om_name = get_string_arg args 0 (CStr name),
                 om_group = get_string_arg args 1 (CStr ''Linear Opmode''),
                 om_type = (if kw = ''teleop'' then TELEOP else AUTONOMOUS)\<rparr>"
  let ?line = "''@'' @ (if kw = ''teleop'' then ''TeleOp'' else ''Autonomous'')
                    @ ''(name=\"''
                    @ (case args of Constant (CStr n) # _ \<Rightarrow> n | _ \<Rightarrow> name)
                    @ ''\", group=\"''
                    @ (case args of _ # Constant (CStr g) # _ \<Rightarrow> g | _ \<Rightarrow> ''Linear Opmode'')
                    @ ''\")''"
  have g: "py_str (get_string_arg args 1 (CStr ''Linear Opmode''))
             = (case args of _ # Constant (CStr g) # _ \<Rightarrow> g | _ \<Rightarrow> ''Linear Opmode'')"
    unfolding get_string_arg_1 [OF assms(5)]
    by (simp split: list.splits expr.splits pyval.splits)
  have line: "annotation_line ?info = ?line"
    unfolding annotation_line_def using get_string_arg_0 [OF assms(5), of name] g by simp
  from assms(6) obtain s1 s2 st' ls where
    s1: "indent_level s1 = 0"
    and u: "visit (ClassDef name decorator_list body) s1 = Inr s2"
    and st': "java_code st' = java_code s2 @ ls"
    and out: "text = generate_java_code st'"
    unfolding assms(1) by (rule module_statement)
  from u obtain s3 where
    b: "visit_stmts body (ClassDef_prologue name decorator_list body s1) = Inr s3"
    and s2: "s2 = add_line ''}'' (indent_less s3)"
    by (auto split: sum.splits)
  have "\<exists>ls. java_code (ClassDef_prologue name decorator_list body s1)
          = java_code s1 @ [?line] @ ls"
    using s1 line
    by (simp add: ClassDef_prologue_java_code effective_opmode_last [OF assms(2-4)] indent_def)
  then obtain ls1 where
    p: "java_code (ClassDef_prologue name decorator_list body s1) = java_code s1 @ [?line] @ ls1"
    by blast
  from visit_frame(2) [OF b] obtain ls2 where
    "java_code s3 = java_code (ClassDef_prologue name decorator_list body s1) @ ls2"
    by (auto elim: prefixE)
  with p s2 st' have
    "java_code st' = java_code s1 @ [?line] @ (ls1 @ ls2 @ [indent (indent_less s3) @ ''}''] @ ls)"
    by simp
  with out show ?thesis
    by blast
qed


text \<open>The unit of the repository's test \<^verbatim>\<open>test_basic_class_creation\<close>.\<close>

theorem C9_annotation_line_witness:
  "\<exists>text st' lines_before lines_after.
     transpile_tree
       [ClassDef ''TestRobot''
          [Call (Name ''teleop'') [Constant (CStr ''Test Robot''), Constant (CStr ''Test Group'')]]
          [FunctionDef ''run'' [''self''] [OtherStmt []]]] = Inr text
     \<and> text = generate_java_code st'
     \<and> java_code st' =
         lines_before @ [''@TeleOp(name=\"Test Robot\", group=\"Test Group\")''] @ lines_after"
proof -
  let ?ds = "[Call (Name ''teleop'') [Constant (CStr ''Test Robot''), Constant (CStr ''Test Group'')]]"
  let ?tree = "[ClassDef ''TestRobot'' ?ds [FunctionDef ''run'' [''self''] [OtherStmt []]]]"
  have "case transpile_tree ?tree of Inl e \<Rightarrow> False | Inr t \<Rightarrow> True"
    by code_simp
  then obtain out where t: "transpile_tree ?tree = Inr out"
    by (cases "transpile_tree ?tree") simp_all
  have h1: "?tree = [] @ ClassDef ''TestRobot'' ?ds [FunctionDef ''run'' [''self''] [OtherStmt []]] # []"
    by simp
  have h2: "?ds = [] @ Call (Name ''teleop'')
                         [Constant (CStr ''Test Robot''), Constant (CStr ''Test Group'')] # []"
    by simp
  have h3: "''teleop'' = ''teleop'' \<or> ''teleop'' = ''autonomous''"
    by simp
  have h4: "\<forall>d\<in>set ([]::expr list).
              \<forall>a. d \<noteq> Call (Name ''teleop'') a \<and> d \<noteq> Call (Name ''autonomous'') a"
    by simp
  have h5: "\<forall>c. Constant c \<in> set (take 2 [Constant (CStr ''Test Robot''), Constant (CStr ''Test Group'')])
              \<longrightarrow> (\<exists>s. c = CStr s)"
    by (auto simp: eval_nat_numeral)
  from C9_annotation_line [OF h1 h2 h3 h4 h5 t] t show ?thesis
    by simp
qed

text \<open>
  Claim C9 as stated fails on a unit that carries both decorators,
  \<^verbatim>\<open>@teleop("Drive", "Main")\<close> above \<^verbatim>\<open>@autonomous("Auto", "Backup")\<close>: the loop over the
  decorators overwrites the metadata, so the only annotation line is the one of the last
  decorator, and no line holds \<^verbatim>\<open>Drive\<close>, \<^verbatim>\<open>Main\<close> and \<^verbatim>\<open>@TeleOp\<close>.
\<close>

theorem C9_last_decorator_wins:
  "map_sum id java_code
     (visit_stmts
        [ClassDef ''Robot''
           [Call (Name ''teleop'') [Constant (CStr ''Drive''), Constant (CStr ''Main'')],
            Call (Name ''autonomous'') [Constant (CStr ''Auto''), Constant (CStr ''Backup'')]]
           [FunctionDef ''run'' [''self''] [OtherStmt []]]]
        FTCTranspiler_init)
    = Inr [''@Autonomous(name=\"Auto\", group=\"Backup\")'',
           ''public class Robot extends LinearOpMode {'',
           ''    @Override'',
           ''    public void runOpMode() {'',
           ''        initHardware();'',
           ''        '',
           ''        telemetry.addData(\"Status\", \"Initialized\");'',
           ''        telemetry.update();'',
           ''        '',
           ''        waitForStart();'',
           ''        '',
           ''    }'',
           ''}'']"
  by code_simp

section \<open>Statements without output\<close>

text \<open>
  Claim C10. The emitter appends no line and changes nothing else in its state for: an
  expression statement whose value is not a call; a statement-level call whose
  translation begins with \<^verbatim>\<open>/*\<close>; an assignment whose number of targets is not one; an
  assignment whose single target is neither a bare name nor an attribute of \<^verbatim>\<open>self\<close>.
\<close>

theorem C10_unhandled_statements_vanish:
  "((\<forall>f args. val \<noteq> Call f args) \<longrightarrow> visit (Expr val) st = Inr st)
   \<and> (visit_call_expression f args = Inr call_str \<and> prefix ''/*'' call_str
        \<longrightarrow> visit (Expr (Call f args)) st = Inr st)
   \<and> (length targets \<noteq> 1 \<longrightarrow> visit (Assign targets val) st = Inr st)
   \<and> ((\<forall>i. t \<noteq> Name i) \<and> (\<forall>attr. t \<noteq> Attribute (Name ''self'') attr)
        \<longrightarrow> visit (Assign [t] val) st = Inr st)"
proof (intro conjI impI)
  assume "\<forall>f args. val \<noteq> Call f args"
  then show "visit (Expr val) st = Inr st"
    by (cases val) (simp_all add: visit_Expr_def)
next
  assume "visit_call_expression f args = Inr call_str \<and> prefix ''/*'' call_str"
  then show "visit (Expr (Call f args)) st = Inr st"
    by (simp add: visit_Expr_def)
next
  assume "length targets \<noteq> 1"
  then show "visit (Assign targets val) st = Inr st"
    by (cases targets; cases "tl targets") (simp_all add: visit_Assign_def split: expr.splits)
next
  assume a: "(\<forall>i. t \<noteq> Name i) \<and> (\<forall>attr. t \<noteq> Attribute (Name ''self'') attr)"
  show "visit (Assign [t] val) st = Inr st"
  proof (cases t)
    case (Attribute v attr)
    with a show ?thesis
      by (cases v) (auto simp: visit_Assign_def)
  qed (use a in \<open>simp_all add: visit_Assign_def\<close>)
qed

text \<open>
  A docstring, the call \<^verbatim>\<open>foo()\<close>, the assignment \<^verbatim>\<open>a = b = "doc"\<close> and an assignment
  to a subscript, in the state reached inside a class body.
\<close>

theorem C10_unhandled_statements_vanish_witness:
  "visit (Expr (Constant (CStr ''doc''))) (indent_more FTCTranspiler_init)
     = Inr (indent_more FTCTranspiler_init)
   \<and> visit (Expr (Call (Name ''foo'') [])) (indent_more FTCTranspiler_init)
     = Inr (indent_more FTCTranspiler_init)
   \<and> visit (Assign [Name ''a'', Name ''b''] (Constant (CStr ''doc''))) (indent_more FTCTranspiler_init)
     = Inr (indent_more FTCTranspiler_init)
   \<and> visit (Assign [OtherExpr] (Constant (CStr ''doc''))) (indent_more FTCTranspiler_init)
     = Inr (indent_more FTCTranspiler_init)"
proof -
  have h1: "\<forall>f args. Constant (CStr ''doc'') \<noteq> Call f args"
    by simp
  have h2: "visit_call_expression (Name ''foo'') [] = Inr ''/* UNKNOWN CALL */''
            \<and> prefix ''/*'' ''/* UNKNOWN CALL */''"
    by (simp add: UNKNOWN_CALL_def)
  have h3: "length [Name ''a'', Name ''b''] \<noteq> 1"
    by simp
  have h4: "(\<forall>i. OtherExpr \<noteq> Name i) \<and> (\<forall>attr. OtherExpr \<noteq> Attribute (Name ''self'') attr)"
    by simp
  show ?thesis
    using h1 h2 h3 h4
      C10_unhandled_statements_vanish
        [of "Constant (CStr ''doc'')" "indent_more FTCTranspiler_init" "Name ''foo''" "[]"
            "''/* UNKNOWN CALL */''" "[Name ''a'', Name ''b'']" OtherExpr]
    by blast
qed


end
